theory Spec2Isabelle
  imports Main "HOL-Library.Sublist" "HOL-Library.Char_ord" "HOL-Library.List_Lexorder"
    "HOL-Library.Multiset"
begin

section \<open>Data model\<close>

text \<open>
  The embedding follows \<^verbatim>\<open>local_repo2ai.py\<close> on a POSIX system (\<^verbatim>\<open>os.sep == '/'\<close>).
  File names, paths and attribute values are \<open>string\<close>s. Decoded file content and the
  text of an XML node are lists of Unicode code points, because the sanitising regular
  expression of the source is a class of code points.
\<close>

type_synonym unicode = "nat list"

definition text_of :: "string \<Rightarrow> unicode" where
  "text_of s = map of_char s"

text \<open>
  The exceptions of a run. \<^verbatim>\<open>PermissionError\<close> is a subclass of \<^verbatim>\<open>OSError\<close>; the
  constructor \<open>OSError\<close> stands for every other \<^verbatim>\<open>OSError\<close>. \<^verbatim>\<open>RecursionError\<close> is what the
  interpreter raises when calls nest deeper than its recursion limit, and \<open>Exception\<close>
  stands for an exception of any other class. \<open>str_exc\<close> is \<^verbatim>\<open>str(e)\<close>.
\<close>

datatype exn =
    UnicodeDecodeError string
  | PermissionError string
  | OSError string
  | ValueError string
  | RecursionError string
  | Exception string

fun str_exc :: "exn \<Rightarrow> string" where
  "str_exc (UnicodeDecodeError m) = m"
| "str_exc (PermissionError m) = m"
| "str_exc (OSError m) = m"
| "str_exc (ValueError m) = m"
| "str_exc (RecursionError m) = m"
| "str_exc (Exception m) = m"

fun is_PermissionError :: "exn \<Rightarrow> bool" where
  "is_PermissionError (PermissionError m) = True"
| "is_PermissionError e = False"

text \<open>\<^verbatim>\<open>except (UnicodeDecodeError, PermissionError, OSError)\<close> of the file branch.\<close>

fun is_read_error :: "exn \<Rightarrow> bool" where
  "is_read_error (UnicodeDecodeError m) = True"
| "is_read_error (PermissionError m) = True"
| "is_read_error (OSError m) = True"
| "is_read_error (ValueError m) = False"
| "is_read_error (RecursionError m) = False"
| "is_read_error (Exception m) = False"

text \<open>
  How a step ends when it gives no value: it raises an exception, or it never returns
  (\<^verbatim>\<open>open\<close> on a named pipe that nobody writes to waits for ever). A result is a value of
  \<open>failure + 'a\<close>.
\<close>

datatype failure = Raised exn | Blocked

text \<open>
  The directory tree the run reads, as the path operations of the source see it.
  \<open>File regular size content\<close>: \<open>regular\<close> is \<^verbatim>\<open>os.path.isfile\<close> (an entry that is
  neither a regular file nor a directory, such as a dangling link, has \<open>regular = False\<close>),
  \<open>size\<close> is the outcome of \<^verbatim>\<open>os.path.getsize\<close> and \<open>content\<close> the outcome of opening the
  file with \<^verbatim>\<open>errors='ignore'\<close> and reading it: the text that \<^verbatim>\<open>f.read()\<close> returns, the
  exception raised, or \<open>Blocked\<close>.
  \<open>Directory err entries\<close>: \<^verbatim>\<open>os.listdir\<close> raises \<open>e\<close> when \<open>err = Some e\<close> and returns the
  names of \<open>entries\<close>, in the order of that list, otherwise.
\<close>

datatype entry =
    File bool "exn + nat" "failure + unicode"
  | Directory "exn option" "(string \<times> entry) list"

fun isfile :: "entry \<Rightarrow> bool" where
  "isfile (File regular sz content) = regular"
| "isfile (Directory err entries) = False"

fun isdir :: "entry \<Rightarrow> bool" where
  "isdir (File regular sz content) = False"
| "isdir (Directory err entries) = True"

text \<open>An \<^verbatim>\<open>xml.etree.ElementTree.Element\<close>: tag, attributes in insertion order, text, children.\<close>

datatype element = Element string "(string \<times> string) list" "unicode option" "element list"

fun tag :: "element \<Rightarrow> string" where
  "tag (Element t a x kids) = t"

fun attrib :: "element \<Rightarrow> (string \<times> string) list" where
  "attrib (Element t a x kids) = a"

fun get :: "element \<Rightarrow> string \<Rightarrow> string option" where
  "get el k = map_of (attrib el) k"

text \<open>An element and everything below it (\<^verbatim>\<open>Element.iter()\<close>).\<close>

fun iter :: "element \<Rightarrow> element list" where
  "iter (Element t a x kids) = Element t a x kids # concat (map iter kids)"

definition iter_all :: "element list \<Rightarrow> element list" where
  "iter_all els = concat (map iter els)"

section \<open>String operations of the source\<close>

text \<open>\<^verbatim>\<open>s.split(c)\<close> for a one-character separator.\<close>

fun str_split :: "'a \<Rightarrow> 'a list \<Rightarrow> 'a list list" where
  "str_split c [] = [[]]"
| "str_split c (x # xs) =
     (if x = c then [] # str_split c xs
      else (case str_split c xs of [] \<Rightarrow> [[x]] | w # ws \<Rightarrow> (x # w) # ws))"

definition startswith :: "string \<Rightarrow> string \<Rightarrow> bool" where
  "startswith s p = (take (length p) s = p)"

definition endswith :: "string \<Rightarrow> string \<Rightarrow> bool" where
  "endswith s p = (length p \<le> length s \<and> drop (length s - length p) s = p)"

text \<open>\<^verbatim>\<open>sep.join(parts)\<close>.\<close>

fun str_join :: "'a list \<Rightarrow> 'a list list \<Rightarrow> 'a list" where
  "str_join sep [] = []"
| "str_join sep [p] = p"
| "str_join sep (p # q # ps) = p @ sep @ str_join sep (q # ps)"

text \<open>
  A path below \<^verbatim>\<open>repo_folder\<close> is kept as the list of names that lead to it from
  \<^verbatim>\<open>repo_folder\<close>; \<open>relpath\<close> is \<^verbatim>\<open>os.path.relpath(path, repo_folder)\<close> of such a path.
\<close>

definition relpath :: "string list \<Rightarrow> string" where
  "relpath segs = (if segs = [] then ''.'' else str_join ''/'' segs)"

text \<open>\<^verbatim>\<open>str(n)\<close> for a size.\<close>

function str_nat :: "nat \<Rightarrow> string" where
  "str_nat n =
     (if n < 10 then [''0123456789'' ! n] else str_nat (n div 10) @ [''0123456789'' ! (n mod 10)])"
  by pat_completeness auto
termination
  by (relation "measure id") auto

section \<open>Content sanitizer\<close>

text \<open>The character class \<^verbatim>\<open>[\x00-\x08\x0b\x0c\x0e-\x1f\x7f-\x9f]\<close>.\<close>

definition control_class :: "nat \<Rightarrow> bool" where
  "control_class c =
     ((0 \<le> c \<and> c \<le> 8) \<or> c = 11 \<or> c = 12 \<or> (14 \<le> c \<and> c \<le> 31) \<or> (127 \<le> c \<and> c \<le> 159))"

text \<open>
  \<^verbatim>\<open>re.sub(cls, repl, s)\<close> for a class of single characters: the scan goes from left to
  right and replaces every character of the class by \<open>repl\<close>.
\<close>

fun re_sub :: "(nat \<Rightarrow> bool) \<Rightarrow> unicode \<Rightarrow> unicode \<Rightarrow> unicode" where
  "re_sub cls repl [] = []"
| "re_sub cls repl (c # cs) =
     (if cls c then repl @ re_sub cls repl cs else c # re_sub cls repl cs)"

definition sanitize :: "unicode \<Rightarrow> unicode" where
  "sanitize content = re_sub control_class [] content"

section \<open>Exclusion predicate\<close>

text \<open>
  \<^verbatim>\<open>should_exclude_path(path, repo_folder)\<close>, lines 17 to 39. The path is given by its
  names below \<^verbatim>\<open>repo_folder\<close> and by the entry \<open>e\<close> it leads to, which answers
  \<^verbatim>\<open>os.path.isfile(path)\<close>. Each \<^verbatim>\<open>for\<close> loop returns \<^verbatim>\<open>True\<close> at the first hit, which is
  \<open>list_ex\<close>; the slice \<^verbatim>\<open>path_parts[i:i+n]\<close> is \<open>take n (drop i path_parts)\<close>.
\<close>

definition should_exclude_path :: "string list \<Rightarrow> string list \<Rightarrow> string list \<Rightarrow> entry \<Rightarrow> bool" where
  "should_exclude_path exclude_folders exclude_files path e =
     (let rel_path = relpath path in
      if isfile e \<and>
         list_ex (\<lambda>exclude_file.
            rel_path = exclude_file \<or> endswith rel_path (''/'' @ exclude_file)) exclude_files
      then True
      else
        (let path_parts = str_split CHR ''/'' rel_path in
         list_ex (\<lambda>exclude_folder.
            let exclude_parts = str_split CHR ''/'' exclude_folder in
            length path_parts \<ge> length exclude_parts \<and>
            list_ex (\<lambda>i. take (length exclude_parts) (drop i path_parts) = exclude_parts)
              [0 ..< length path_parts - length exclude_parts + 1]) exclude_folders))"

section \<open>Language detection\<close>

text \<open>\<^verbatim>\<open>s.rfind(c)\<close>: the last index of \<open>c\<close>, or \<open>-1\<close>.\<close>

fun rfind_from :: "char \<Rightarrow> string \<Rightarrow> int \<Rightarrow> int \<Rightarrow> int" where
  "rfind_from c [] i found = found"
| "rfind_from c (x # xs) i found = rfind_from c xs (i + 1) (if x = c then i else found)"

definition rfind :: "string \<Rightarrow> char \<Rightarrow> int" where
  "rfind s c = rfind_from c s 0 (- 1)"

text \<open>
  \<^verbatim>\<open>os.path.splitext\<close>: the extension starts at the last dot of the last component,
  unless only dots precede it there.
\<close>

definition splitext :: "string \<Rightarrow> string \<times> string" where
  "splitext p =
     (let sepIndex = rfind p CHR ''/''; dotIndex = rfind p CHR ''.'' in
      if dotIndex > sepIndex \<and>
         list_ex (\<lambda>k. p ! k \<noteq> CHR ''.'') [nat (sepIndex + 1) ..< nat dotIndex]
      then (take (nat dotIndex) p, drop (nat dotIndex) p)
      else (p, []))"

text \<open>\<^verbatim>\<open>s.lower()\<close> on the letters A to Z; every other character is kept.\<close>

definition str_lower :: "string \<Rightarrow> string" where
  "str_lower s =
     map (\<lambda>c. if CHR ''A'' \<le> c \<and> c \<le> CHR ''Z'' then char_of (of_char c + (32::nat)) else c) s"

definition extension_to_language :: "(string \<times> string) list" where
  "extension_to_language =
     [(''.py'', ''python''), (''.js'', ''javascript''), (''.ts'', ''typescript''),
      (''.jsx'', ''javascript''), (''.tsx'', ''typescript''), (''.java'', ''java''),
      (''.cpp'', ''cpp''), (''.c'', ''c''), (''.cs'', ''csharp''), (''.html'', ''html''),
      (''.css'', ''css''), (''.rb'', ''ruby''), (''.php'', ''php''), (''.go'', ''go''),
      (''.rs'', ''rust''), (''.swift'', ''swift''), (''.kt'', ''kotlin''), (''.sh'', ''bash''),
      (''.md'', ''markdown''), (''.json'', ''json''), (''.xml'', ''xml''), (''.yaml'', ''yaml''),
      (''.yml'', ''yaml''), (''.sql'', ''sql''), (''.r'', ''r''), (''.scala'', ''scala'')]"

definition language_of :: "string \<Rightarrow> string" where
  "language_of item =
     (let ext = snd (splitext item) in
      case map_of extension_to_language (str_lower ext) of
        Some language \<Rightarrow> language
      | None \<Rightarrow> ''text'')"

section \<open>Content loader\<close>

text \<open>
  Lines 112 to 138: the \<^verbatim>\<open>try\<close> block that sizes, reads and sanitizes one file, and its
  \<^verbatim>\<open>except\<close> clause. The result is the text of the \<^verbatim>\<open>content\<close> element, or the exception
  that the clause does not catch, or \<open>Blocked\<close> when the read never returns.
\<close>

definition handle_read_error :: "exn \<Rightarrow> failure + unicode" where
  "handle_read_error e =
     (if is_read_error e
      then Inr (text_of (''[Binary or unreadable file: '' @ str_exc e @ '']''))
      else Inl (Raised e))"

fun read_file_content :: "entry \<Rightarrow> failure + unicode" where
  "read_file_content (File regular sz content) =
     (case sz of
        Inl e \<Rightarrow> handle_read_error e
      | Inr file_size \<Rightarrow>
          if file_size > 10 * 1024 * 1024
          then Inr (text_of (''[File too large: '' @ str_nat file_size @ '' bytes]''))
          else (case content of
                  Inl (Raised e) \<Rightarrow> handle_read_error e
                | Inl Blocked \<Rightarrow> Inl Blocked
                | Inr c \<Rightarrow> Inr (sanitize c)))"
| "read_file_content (Directory err entries) = handle_read_error (OSError ''Is a directory'')"

definition file_element :: "string \<Rightarrow> string \<Rightarrow> unicode \<Rightarrow> element" where
  "file_element item rel c =
     Element ''file'' [(''name'', item), (''path'', rel), (''language'', language_of item)] None
       [Element ''content'' [] (Some c) []]"

definition directory_element :: "string \<Rightarrow> string \<Rightarrow> element list \<Rightarrow> element" where
  "directory_element item rel kids =
     Element ''directory'' [(''name'', item), (''path'', rel)] None kids"

section \<open>Recursive tree builder\<close>

text \<open>
  \<^verbatim>\<open>build_structure_xml(parent_element, path, level)\<close>, lines 41 to 138. The result is the
  list of elements that the call appends to \<^verbatim>\<open>parent_element\<close>, or the way the call fails.
  \<open>for_items\<close> is the \<^verbatim>\<open>for item in items\<close> loop over the sorted listing; each item comes
  with the entry that \<^verbatim>\<open>os.path.join(path, item)\<close> leads to. The \<^verbatim>\<open>level\<close> of a call is the
  length of \<open>path\<close>. \<open>limit\<close> is the number of nested calls of \<^verbatim>\<open>build_structure_xml\<close> for
  which the recursion limit of the interpreter leaves room: a call at a level that is
  not below \<open>limit\<close> raises \<^verbatim>\<open>RecursionError\<close>, which no handler of the traversal catches.
  The frames of the functions that a call itself calls are not counted apart: \<open>limit\<close> is
  the first level at which a call, with what it calls, does not fit.
  The progress messages are left out.
\<close>

function build_structure_xml ::
    "nat \<Rightarrow> string list \<Rightarrow> string list \<Rightarrow> string list \<Rightarrow> entry \<Rightarrow> failure + element list"
  and for_items ::
    "nat \<Rightarrow> string list \<Rightarrow> string list \<Rightarrow> string list \<Rightarrow> (string \<times> entry) list
     \<Rightarrow> failure + element list"
where
  "build_structure_xml limit exclude_folders exclude_files path (Directory err entries) =
     (if limit \<le> length path
      then Inl (Raised (RecursionError ''maximum recursion depth exceeded''))
      else
        (case err of
           Some e \<Rightarrow> (if is_PermissionError e then Inr [] else Inl (Raised e))
         | None \<Rightarrow> for_items limit exclude_folders exclude_files path (sort_key fst entries)))"
| "build_structure_xml limit exclude_folders exclude_files path (File regular sz content) =
     (if limit \<le> length path
      then Inl (Raised (RecursionError ''maximum recursion depth exceeded''))
      else Inl (Raised (OSError ''Not a directory'')))"
| "for_items limit exclude_folders exclude_files path [] = Inr []"
| "for_items limit exclude_folders exclude_files path ((item, e) # items) =
     (if startswith item ''.'' then for_items limit exclude_folders exclude_files path items
      else if should_exclude_path exclude_folders exclude_files (path @ [item]) e
      then for_items limit exclude_folders exclude_files path items
      else if isdir e then
        (case build_structure_xml limit exclude_folders exclude_files (path @ [item]) e of
           Inl x \<Rightarrow> Inl x
         | Inr kids \<Rightarrow>
             (case for_items limit exclude_folders exclude_files path items of
                Inl x \<Rightarrow> Inl x
              | Inr rest \<Rightarrow> Inr (directory_element item (relpath (path @ [item])) kids # rest)))
      else
        (case read_file_content e of
           Inl x \<Rightarrow> Inl x
         | Inr c \<Rightarrow>
             (case for_items limit exclude_folders exclude_files path items of
                Inl x \<Rightarrow> Inl x
              | Inr rest \<Rightarrow> Inr (file_element item (relpath (path @ [item])) c # rest))))"
  by pat_completeness auto
termination
proof (relation "measure (\<lambda>x. case x of
          Inl (l, ef, xf, p, e) \<Rightarrow> size e
        | Inr (l, ef, xf, p, items) \<Rightarrow> size_list (size_prod (\<lambda>_. 0) size) items)")
  fix entries :: "(string \<times> entry) list"
  have ins: "size_list f (insort_key k x xs) = size_list f (x # xs)"
    for f :: "string \<times> entry \<Rightarrow> nat" and k :: "string \<times> entry \<Rightarrow> string" and x xs
    by (induction xs) simp_all
  have srt: "size_list f (sort_key k xs) = size_list f xs"
    for f :: "string \<times> entry \<Rightarrow> nat" and k :: "string \<times> entry \<Rightarrow> string" and xs
    by (induction xs) (simp_all add: ins)
  show "\<And>l ef xf p err.
       ((Inr (l, ef, xf, p, sort_key fst entries)), Inl (l, ef, xf, p, Directory err entries))
       \<in> measure (\<lambda>x. case x of
          Inl (l, ef, xf, p, e) \<Rightarrow> size e
        | Inr (l, ef, xf, p, items) \<Rightarrow> size_list (size_prod (\<lambda>_. 0) size) items)"
    by (simp add: srt)
qed simp_all

section \<open>Rendering and writing\<close>

text \<open>
  What the run uses and the source does not define: the library calls of the output stage,
  the working directory and the interpreter. \<open>recursion_limit\<close> is the \<open>limit\<close> of the
  traversal where \<^verbatim>\<open>describe_repo_contents_xml\<close> runs. \<open>tostring\<close> is \<^verbatim>\<open>ET.tostring(root, encoding='unicode')\<close>,
  \<open>parse_pretty\<close> is \<^verbatim>\<open>minidom.parseString(s).toprettyxml(indent="  ")\<close>, which raises on
  text that is not well-formed, \<open>makedirs\<close> is \<^verbatim>\<open>os.makedirs(d, exist_ok=True)\<close> and
  \<open>write_file\<close> opens the output path for writing and writes the text.
\<close>

record platform =
  recursion_limit :: nat
  abspath :: "string \<Rightarrow> string"
  tostring :: "element \<Rightarrow> unicode"
  parse_pretty :: "unicode \<Rightarrow> exn + unicode"
  makedirs :: "string \<Rightarrow> exn option"
  write_file :: "string \<Rightarrow> unicode \<Rightarrow> exn option"

text \<open>\<^verbatim>\<open>os.path.basename\<close> and \<^verbatim>\<open>os.path.dirname\<close>.\<close>

definition basename :: "string \<Rightarrow> string" where
  "basename p = drop (nat (rfind p CHR ''/'' + 1)) p"

definition rstrip :: "char \<Rightarrow> string \<Rightarrow> string" where
  "rstrip c s = rev (dropWhile (\<lambda>x. x = c) (rev s))"

definition dirname :: "string \<Rightarrow> string" where
  "dirname p =
     (let head = take (nat (rfind p CHR ''/'' + 1)) p in
      if head \<noteq> [] \<and> head \<noteq> replicate (length head) CHR ''/'' then rstrip CHR ''/'' head
      else head)"

text \<open>The characters that \<^verbatim>\<open>str.strip()\<close> removes.\<close>

definition isspace :: "nat \<Rightarrow> bool" where
  "isspace c =
     ((9 \<le> c \<and> c \<le> 13) \<or> (28 \<le> c \<and> c \<le> 32) \<or> c = 133 \<or> c = 160 \<or> c = 5760
      \<or> (8192 \<le> c \<and> c \<le> 8202) \<or> c = 8232 \<or> c = 8233 \<or> c = 8239 \<or> c = 8287
      \<or> c = 12288)"

text \<open>Lines 182 and 183: the lines that are not blank, joined by newlines.\<close>

definition strip_blank_lines :: "unicode \<Rightarrow> unicode" where
  "strip_blank_lines pretty_xml =
     str_join [10] (filter (\<lambda>line. list_ex (\<lambda>c. \<not> isspace c) line) (str_split 10 pretty_xml))"

definition root_element :: "platform \<Rightarrow> string \<Rightarrow> string list \<Rightarrow> string list \<Rightarrow> element list \<Rightarrow> element" where
  "root_element os repo_folder exclude_folders exclude_files kids =
     Element ''repository''
       ([(''source_path'', abspath os repo_folder), (''name'', basename repo_folder)]
        @ (if exclude_folders \<noteq> [] then [(''excluded_folders'', str_join '', '' exclude_folders)] else [])
        @ (if exclude_files \<noteq> [] then [(''excluded_files'', str_join '', '' exclude_files)] else []))
       None
       [Element ''structure'' [] None kids]"

text \<open>The \<^verbatim>\<open>ValueError\<close> of line 142.\<close>

definition not_a_valid_directory :: "string \<Rightarrow> exn" where
  "not_a_valid_directory repo_folder =
     ValueError (''The provided path '' @ [CHR 0x27] @ repo_folder @ [CHR 0x27]
                 @ '' is not a valid directory.'')"

text \<open>
  \<^verbatim>\<open>describe_repo_contents_xml\<close>, lines 8 to 194. \<open>repo\<close> is what \<^verbatim>\<open>repo_folder\<close> leads to,
  \<open>None\<close> when nothing is there. The result is the returned output path or the way the
  run fails, together with the text written to the output path, \<open>None\<close> when the run has
  not written it.
\<close>

definition describe_repo_contents_xml ::
    "platform \<Rightarrow> entry option \<Rightarrow> string \<Rightarrow> string \<Rightarrow> string list option \<Rightarrow> string list option
     \<Rightarrow> (failure + string) \<times> unicode option" where
  "describe_repo_contents_xml os repo repo_folder output_path exclude_folders_arg exclude_files_arg =
     (let exclude_folders = (case exclude_folders_arg of None \<Rightarrow> [] | Some l \<Rightarrow> l);
          exclude_files = (case exclude_files_arg of None \<Rightarrow> [] | Some l \<Rightarrow> l);
          not_a_directory = (Inl (Raised (not_a_valid_directory repo_folder)), None)
      in
      case repo of
        None \<Rightarrow> not_a_directory
      | Some r \<Rightarrow>
          if \<not> isdir r then not_a_directory
          else
            (case build_structure_xml (recursion_limit os) exclude_folders exclude_files [] r of
               Inl x \<Rightarrow> (Inl x, None)
             | Inr kids \<Rightarrow>
                 (let root = root_element os repo_folder exclude_folders exclude_files kids;
                      output_dir = dirname output_path
                  in
                  case (if output_dir \<noteq> [] then makedirs os output_dir else None) of
                    Some e \<Rightarrow> (Inl (Raised e), None)
                  | None \<Rightarrow>
                      (case parse_pretty os (tostring os root) of
                         Inl e \<Rightarrow> (Inl (Raised e), None)
                       | Inr pretty_xml \<Rightarrow>
                           (let final_xml = strip_blank_lines pretty_xml in
                            case write_file os output_path final_xml of
                              Some e \<Rightarrow> (Inl (Raised e), None)
                            | None \<Rightarrow> (Inr output_path, Some final_xml))))))"

text \<open>
  \<^verbatim>\<open>main\<close>, lines 196 to 231, after the arguments are parsed: the exit status, \<open>None\<close> when
  \<^verbatim>\<open>main\<close> never returns, and the text written to the output path.
\<close>

definition main ::
    "platform \<Rightarrow> entry option \<Rightarrow> string \<Rightarrow> string \<Rightarrow> string list \<Rightarrow> string list
     \<Rightarrow> int option \<times> unicode option" where
  "main os repo args_source_path args_output args_exclude args_exclude_files =
     (let source_path = abspath os args_source_path;
          output_path = abspath os args_output
      in
      case repo of
        None \<Rightarrow> (Some 1, None)
      | Some r \<Rightarrow>
          if \<not> isdir r then (Some 1, None)
          else
            (case describe_repo_contents_xml os repo source_path output_path
                    (Some args_exclude) (Some args_exclude_files) of
               (Inr p, written) \<Rightarrow> (Some 0, written)
             | (Inl (Raised e), written) \<Rightarrow> (Some 1, written)
             | (Inl Blocked, written) \<Rightarrow> (None, written)))"

section \<open>Notions used to state the properties\<close>

text \<open>Every entry below a directory, with the names that lead to it.\<close>

fun walk :: "string list \<Rightarrow> entry \<Rightarrow> (string list \<times> entry) list" where
  "walk path (File regular sz content) = []"
| "walk path (Directory err entries) =
     concat (map (\<lambda>(item, e). (path @ [item], e) # walk (path @ [item]) e) entries)"

text \<open>
  The entries that the traversal reaches when nothing stops it: those of a directory that
  can be listed whose name does not begin with a dot and for which the exclusion
  predicate is false, and what it reaches below them.
\<close>

fun visited :: "string list \<Rightarrow> string list \<Rightarrow> string list \<Rightarrow> entry \<Rightarrow> (string list \<times> entry) list" where
  "visited ef xf path (File regular sz content) = []"
| "visited ef xf path (Directory err entries) =
     (case err of
        Some e \<Rightarrow> []
      | None \<Rightarrow>
          concat (map (\<lambda>(item, e).
              if startswith item ''.'' \<or> should_exclude_path ef xf (path @ [item]) e then []
              else (path @ [item], e) # visited ef xf (path @ [item]) e) entries))"

text \<open>
  The same directory tree, listed in any order: the same names in every directory, no
  name twice, and the same tree under each name.
\<close>

inductive same_tree :: "entry \<Rightarrow> entry \<Rightarrow> bool" where
  same_file: "same_tree (File regular sz content) (File regular sz content)"
| same_directory:
    "mset (map fst entries) = mset (map fst entries') \<Longrightarrow>
     distinct (map fst entries) \<Longrightarrow>
     (\<And>item e e'. (item, e) \<in> set entries \<Longrightarrow> (item, e') \<in> set entries' \<Longrightarrow> same_tree e e') \<Longrightarrow>
     same_tree (Directory err entries) (Directory err entries')"

text \<open>
  The exclusion rules in the words of the specification: a contiguous run of the path's
  segments equals the segments of an excluded-folder pattern; the relative path equals an
  excluded-file entry or ends with a separator followed by the entry.
\<close>

definition folder_match :: "string list \<Rightarrow> string \<Rightarrow> bool" where
  "folder_match ef rel = (\<exists>pat \<in> set ef. sublist (str_split CHR ''/'' pat) (str_split CHR ''/'' rel))"

definition file_match :: "string list \<Rightarrow> string \<Rightarrow> bool" where
  "file_match xf rel = (\<exists>x \<in> set xf. rel = x \<or> suffix (''/'' @ x) rel)"

text \<open>
  \<open>appended_for\<close>: the element that one pass of the loop body appends for an entry.
  \<open>node_of\<close>: the element is the node of the entry at \<open>segs\<close>, which the exclusion predicate
  accepts and which has no hidden name below \<open>p\<close>.
\<close>

definition appended_for ::
    "nat \<Rightarrow> string list \<Rightarrow> string list \<Rightarrow> string list \<Rightarrow> string \<Rightarrow> entry \<Rightarrow> element \<Rightarrow> bool" where
  "appended_for limit ef xf p item e el \<longleftrightarrow>
     \<not> startswith item ''.'' \<and> \<not> should_exclude_path ef xf (p @ [item]) e \<and>
     ((isdir e \<and> (\<exists>kids. build_structure_xml limit ef xf (p @ [item]) e = Inr kids
                  \<and> el = directory_element item (relpath (p @ [item])) kids))
      \<or> (\<not> isdir e \<and> (\<exists>c. read_file_content e = Inr c
                  \<and> el = file_element item (relpath (p @ [item])) c)))"

definition node_of ::
    "string list \<Rightarrow> string list \<Rightarrow> string list \<Rightarrow> element \<Rightarrow> string list \<Rightarrow> entry \<Rightarrow> bool" where
  "node_of ef xf p el segs e \<longleftrightarrow>
     get el ''path'' = Some (relpath segs) \<and> get el ''name'' = Some (last segs)
     \<and> \<not> should_exclude_path ef xf segs e
     \<and> (\<forall>s \<in> set (drop (length p) segs). \<not> startswith s ''.'')
     \<and> tag el = (if isdir e then ''directory'' else ''file'')"

text \<open>
  Two entries that the loop cannot tell apart: the same answers to \<^verbatim>\<open>os.path.isfile\<close> and
  \<^verbatim>\<open>os.path.isdir\<close>, the same content, the same result of the traversal.
\<close>

definition alike :: "nat \<Rightarrow> string list \<Rightarrow> string list \<Rightarrow> entry \<Rightarrow> entry \<Rightarrow> bool" where
  "alike limit ef xf e e' \<longleftrightarrow>
     isfile e = isfile e' \<and> isdir e = isdir e' \<and> read_file_content e = read_file_content e'
     \<and> (\<forall>q. build_structure_xml limit ef xf q e = build_structure_xml limit ef xf q e')"

text \<open>
  Nothing in the tree aborts a traversal that has room for \<open>n\<close> more nested calls: a
  directory needs one of them; its listing fails with \<^verbatim>\<open>PermissionError\<close>, or it succeeds
  and every entry is recoverable with one call less; sizing a file fails with an exception
  that the file branch catches, or the file is too large to be read, or reading it
  returns, or fails with an exception that the file branch catches.
\<close>

fun recoverable :: "nat \<Rightarrow> entry \<Rightarrow> bool" where
  "recoverable n (File regular sz content) =
     (case sz of
        Inl e \<Rightarrow> is_read_error e
      | Inr file_size \<Rightarrow>
          file_size > 10 * 1024 * 1024
          \<or> (case content of
                Inl (Raised e) \<Rightarrow> is_read_error e
              | Inl Blocked \<Rightarrow> False
              | Inr c \<Rightarrow> True))"
| "recoverable n (Directory err entries) =
     (0 < n \<and>
      (case err of
         Some e \<Rightarrow> is_PermissionError e
       | None \<Rightarrow> (\<forall>(item, e) \<in> set entries. recoverable (n - 1) e)))"

text \<open>
  The output stage of a run succeeds for the root element \<open>root\<close>: the directory of the
  output path is there or can be made, the serialized tree is parsed and printed as
  \<open>pretty_xml\<close>, and the output path can be written with its lines that are not blank.
\<close>

definition output_written :: "platform \<Rightarrow> string \<Rightarrow> element \<Rightarrow> unicode \<Rightarrow> bool" where
  "output_written os output_path root pretty_xml \<longleftrightarrow>
     (dirname output_path \<noteq> [] \<longrightarrow> makedirs os (dirname output_path) = None)
     \<and> parse_pretty os (tostring os root) = Inr pretty_xml
     \<and> write_file os output_path (strip_blank_lines pretty_xml) = None"

text \<open>
  The name of the class of an exception, \<^verbatim>\<open>type(e).__name__\<close>; for the constructors \<open>OSError\<close>
  and \<open>Exception\<close>, which stand for several classes, the name of their base class.
\<close>

fun class_name :: "exn \<Rightarrow> string" where
  "class_name (UnicodeDecodeError m) = ''UnicodeDecodeError''"
| "class_name (PermissionError m) = ''PermissionError''"
| "class_name (OSError m) = ''OSError''"
| "class_name (ValueError m) = ''ValueError''"
| "class_name (RecursionError m) = ''RecursionError''"
| "class_name (Exception m) = ''Exception''"

section \<open>Example inputs\<close>

text \<open>
  The scenarios of the specification: \<^verbatim>\<open>a.py\<close> and \<^verbatim>\<open>sub/b.txt\<close>; a single \<^verbatim>\<open>secret.env\<close>;
  a directory \<^verbatim>\<open>locked\<close> that cannot be listed, beside \<^verbatim>\<open>a.py\<close>. Then a directory whose
  listing fails with an input/output error, hidden directories, a directory \<^verbatim>\<open>docs\<close> with
  one file, a file that cannot be read, the first scenario listed in another order, and a
  platform: room for 1000 nested calls, paths that are absolute already, a serializer
  that writes tags, attributes and text without escaping, a printer that changes nothing,
  and an output path that can be written.
\<close>

definition a_py :: entry where
  "a_py = File True (Inr 3) (Inr [120, 61, 49])"

definition b_txt :: entry where
  "b_txt = File True (Inr 2) (Inr [104, 105])"

definition scenario_sub :: entry where
  "scenario_sub = Directory None [(''sub'', Directory None [(''b.txt'', b_txt)]), (''a.py'', a_py)]"

definition scenario_secret :: entry where
  "scenario_secret = Directory None [(''secret.env'', File True (Inr 0) (Inr []))]"

definition locked :: entry where
  "locked = Directory (Some (PermissionError ''[Errno 13] Permission denied'')) [(''b.txt'', b_txt)]"

definition scenario_locked :: entry where
  "scenario_locked = Directory None [(''locked'', locked), (''a.py'', a_py)]"

definition scenario_io_error :: entry where
  "scenario_io_error =
     Directory None
       [(''d'', Directory (Some (OSError ''[Errno 5] Input/output error'')) []), (''a.py'', a_py)]"

definition scenario_hidden :: entry where
  "scenario_hidden = Directory None [(''.git'', Directory None [(''config'', b_txt)]), (''a.py'', a_py)]"

definition scenario_docs :: entry where
  "scenario_docs = Directory None [(''docs'', Directory None [(''b.txt'', b_txt)])]"

definition key_pem :: entry where
  "key_pem = File True (Inr 12) (Inl (Raised (PermissionError ''[Errno 13] Permission denied'')))"

definition scenario_unreadable :: entry where
  "scenario_unreadable = Directory None [(''key.pem'', key_pem), (''z.py'', a_py)]"

definition scenario_sub_reordered :: entry where
  "scenario_sub_reordered =
     Directory None [(''a.py'', a_py), (''sub'', Directory None [(''b.txt'', b_txt)])]"

definition scenario_hidden_docs :: entry where
  "scenario_hidden_docs = Directory None [(''.docs'', Directory None [(''b.txt'', b_txt)])]"

fun serialize :: "element \<Rightarrow> unicode" where
  "serialize (Element t a x kids) =
     text_of (''<'' @ t)
     @ concat (map (\<lambda>(k, v). text_of ('' '' @ k @ ''='' @ [CHR 0x22] @ v @ [CHR 0x22])) a)
     @ text_of ''>''
     @ (case x of None \<Rightarrow> [] | Some c \<Rightarrow> c)
     @ concat (map serialize kids)
     @ text_of (''</'' @ t @ ''>'')"

definition simple_platform :: platform where
  "simple_platform =
     \<lparr>recursion_limit = 1000, abspath = (\<lambda>p. p), tostring = serialize,
      parse_pretty = (\<lambda>s. Inr s), makedirs = (\<lambda>d. None), write_file = (\<lambda>p s. None)\<rparr>"

section \<open>The sanitizer keeps allowed characters and removes the others\<close>

lemma re_sub_empty_filter: "re_sub cls [] s = filter (\<lambda>c. \<not> cls c) s"
  by (induction s) simp_all

lemma control_class_iff_not_allowed:
  "\<not> control_class c \<longleftrightarrow> c = 9 \<or> c = 10 \<or> c = 13 \<or> (32 \<le> c \<and> c \<le> 126) \<or> 160 \<le> c"
  unfolding control_class_def by arith

text \<open>
  C4. The sanitizer keeps, in their order, exactly the characters that are a tab (9), a
  newline (10), a carriage return (13), in the range 32 to 126, or from 160 on. So it is
  the identity on a string of such characters, and no character of the ranges 0 to 8, 11,
  12, 14 to 31 and 127 to 159 is left in its result.
\<close>

theorem sanitize_removes_exactly_controls:
  "sanitize s = filter (\<lambda>c. c = 9 \<or> c = 10 \<or> c = 13 \<or> (32 \<le> c \<and> c \<le> 126) \<or> 160 \<le> c) s
   \<and> ((\<forall>c \<in> set s. c = 9 \<or> c = 10 \<or> c = 13 \<or> (32 \<le> c \<and> c \<le> 126) \<or> 160 \<le> c)
        \<longrightarrow> sanitize s = s)
   \<and> (c \<le> 8 \<or> c = 11 \<or> c = 12 \<or> (14 \<le> c \<and> c \<le> 31) \<or> (127 \<le> c \<and> c \<le> 159)
        \<longrightarrow> c \<notin> set (sanitize s))"
proof -
  have flt: "sanitize s
      = filter (\<lambda>c. c = 9 \<or> c = 10 \<or> c = 13 \<or> (32 \<le> c \<and> c \<le> 126) \<or> 160 \<le> c) s"
    unfolding sanitize_def re_sub_empty_filter control_class_iff_not_allowed ..
  have idem: "(\<forall>c \<in> set s. c = 9 \<or> c = 10 \<or> c = 13 \<or> (32 \<le> c \<and> c \<le> 126) \<or> 160 \<le> c)
        \<longrightarrow> sanitize s = s"
    unfolding flt by simp
  have gone: "c \<le> 8 \<or> c = 11 \<or> c = 12 \<or> (14 \<le> c \<and> c \<le> 31) \<or> (127 \<le> c \<and> c \<le> 159)
        \<longrightarrow> c \<notin> set (sanitize s)"
    unfolding flt by auto
  from flt idem gone show ?thesis by blast
qed

theorem sanitize_removes_exactly_controls_witness:
  "sanitize [0, 8, 9, 10, 11, 12, 13, 14, 31, 32, 104, 126, 127, 133, 159, 160, 955]
     = [9, 10, 13, 32, 104, 126, 160, 955]
   \<and> sanitize [9, 10, 13, 32, 104, 126, 160, 955] = [9, 10, 13, 32, 104, 126, 160, 955]
   \<and> 133 \<notin> set (sanitize [104, 133, 105])"
proof -
  note t1 = sanitize_removes_exactly_controls
    [of "[0, 8, 9, 10, 11, 12, 13, 14, 31, 32, 104, 126, 127, 133, 159, 160, 955]" 0]
  note t2 = sanitize_removes_exactly_controls [of "[9, 10, 13, 32, 104, 126, 160, 955]" 0]
  note t3 = sanitize_removes_exactly_controls [of "[104, 133, 105]" 133]
  from t1 [THEN conjunct1]
  have a: "sanitize [0, 8, 9, 10, 11, 12, 13, 14, 31, 32, 104, 126, 127, 133, 159, 160, 955]
     = [9, 10, 13, 32, 104, 126, 160, 955]" by simp
  have ok: "\<forall>c \<in> set [9, 10, 13, 32, 104, 126, 160, 955 :: nat].
      c = 9 \<or> c = 10 \<or> c = 13 \<or> (32 \<le> c \<and> c \<le> 126) \<or> 160 \<le> c" by simp
  from t2 [THEN conjunct2, THEN conjunct1, THEN mp, OF ok]
  have b: "sanitize [9, 10, 13, 32, 104, 126, 160, 955] = [9, 10, 13, 32, 104, 126, 160, 955]" .
  have "(133::nat) \<le> 8 \<or> (133::nat) = 11 \<or> (133::nat) = 12 \<or> (14 \<le> (133::nat) \<and> (133::nat) \<le> 31)
      \<or> (127 \<le> (133::nat) \<and> (133::nat) \<le> 159)" by simp
  from t3 [THEN conjunct2, THEN conjunct2, rule_format, OF this]
  have c: "133 \<notin> set (sanitize [104, 133, 105])" .
  from a b c show ?thesis by blast
qed

section \<open>The exclusion predicate and the tree builder\<close>

lemma window_iff_sublist:
  "(length xs \<le> length ys \<and>
    list_ex (\<lambda>i. take (length xs) (drop i ys) = xs) [0 ..< length ys - length xs + 1])
   \<longleftrightarrow> sublist xs ys"
proof
  assume "length xs \<le> length ys \<and>
    list_ex (\<lambda>i. take (length xs) (drop i ys) = xs) [0 ..< length ys - length xs + 1]"
  then obtain i where i: "take (length xs) (drop i ys) = xs"
    unfolding list_ex_iff by blast
  have "ys = take i ys @ take (length xs) (drop i ys) @ drop (length xs) (drop i ys)"
    by (simp only: append_take_drop_id)
  with i have "ys = take i ys @ xs @ drop (length xs) (drop i ys)" by simp
  then show "sublist xs ys" unfolding sublist_def by blast
next
  assume "sublist xs ys"
  then obtain ps ss where ys: "ys = ps @ xs @ ss" unfolding sublist_def by blast
  then have "length xs \<le> length ys" by simp
  moreover have "length ps \<in> set [0 ..< length ys - length xs + 1]"
    unfolding set_upt using ys by simp
  moreover have "take (length xs) (drop (length ps) ys) = xs" using ys by simp
  ultimately show "length xs \<le> length ys \<and>
    list_ex (\<lambda>i. take (length xs) (drop i ys) = xs) [0 ..< length ys - length xs + 1]"
    unfolding list_ex_iff by blast
qed

lemma endswith_suffix: "endswith s p \<longleftrightarrow> suffix p s"
proof
  assume "endswith s p"
  then have "s = take (length s - length p) s @ p"
    unfolding endswith_def by (metis append_take_drop_id)
  then show "suffix p s" unfolding suffix_def by blast
next
  assume "suffix p s"
  then obtain zs where "s = zs @ p" unfolding suffix_def by blast
  then show "endswith s p" unfolding endswith_def by simp
qed

lemma should_exclude_path_iff:
  "should_exclude_path ef xf path e \<longleftrightarrow>
     (isfile e \<and> file_match xf (relpath path)) \<or> folder_match ef (relpath path)"
proof -
  have w: "list_ex (\<lambda>exclude_folder.
            length (str_split CHR ''/'' (relpath path)) \<ge> length (str_split CHR ''/'' exclude_folder) \<and>
            list_ex (\<lambda>i. take (length (str_split CHR ''/'' exclude_folder)) (drop i (str_split CHR ''/'' (relpath path)))
                 = str_split CHR ''/'' exclude_folder)
              [0 ..< length (str_split CHR ''/'' (relpath path)) - length (str_split CHR ''/'' exclude_folder) + 1]) ef
        = folder_match ef (relpath path)"
    unfolding folder_match_def list_ex_iff [of _ ef] window_iff_sublist ..
  have f: "list_ex (\<lambda>exclude_file.
            relpath path = exclude_file \<or> endswith (relpath path) (''/'' @ exclude_file)) xf
        = file_match xf (relpath path)"
    unfolding file_match_def list_ex_iff endswith_suffix ..
  show ?thesis
    unfolding should_exclude_path_def Let_def w f by auto
qed


lemma for_items_skip:
  "startswith item ''.'' \<or> should_exclude_path ef xf (p @ [item]) e \<Longrightarrow>
   for_items limit ef xf p ((item, e) # items) = for_items limit ef xf p items"
  by auto

lemma for_items_directory:
  "\<not> startswith item ''.'' \<Longrightarrow> \<not> should_exclude_path ef xf (p @ [item]) e \<Longrightarrow> isdir e \<Longrightarrow>
   for_items limit ef xf p ((item, e) # items) =
     (case build_structure_xml limit ef xf (p @ [item]) e of
        Inl x \<Rightarrow> Inl x
      | Inr kids \<Rightarrow>
          (case for_items limit ef xf p items of
             Inl x \<Rightarrow> Inl x
           | Inr rest \<Rightarrow> Inr (directory_element item (relpath (p @ [item])) kids # rest)))"
  by simp

lemma for_items_file:
  "\<not> startswith item ''.'' \<Longrightarrow> \<not> should_exclude_path ef xf (p @ [item]) e \<Longrightarrow> \<not> isdir e \<Longrightarrow>
   for_items limit ef xf p ((item, e) # items) =
     (case read_file_content e of
        Inl x \<Rightarrow> Inl x
      | Inr c \<Rightarrow>
          (case for_items limit ef xf p items of
             Inl x \<Rightarrow> Inl x
           | Inr rest \<Rightarrow> Inr (file_element item (relpath (p @ [item])) c # rest)))"
  by simp

lemma for_items_elements:
  "for_items limit ef xf p items = Inr els \<Longrightarrow>
   el \<in> set els \<longleftrightarrow> (\<exists>item e. (item, e) \<in> set items \<and> appended_for limit ef xf p item e el)"
proof (induction items arbitrary: els)
  case Nil
  then show ?case by simp
next
  case (Cons a items)
  obtain item e where a: "a = (item, e)" by (cases a)
  show ?case
  proof (cases "startswith item ''.'' \<or> should_exclude_path ef xf (p @ [item]) e")
    case True
    with Cons.prems a have "for_items limit ef xf p items = Inr els"
      by (simp only: for_items_skip)
    from Cons.IH [OF this] have
      "el \<in> set els \<longleftrightarrow> (\<exists>item e. (item, e) \<in> set items \<and> appended_for limit ef xf p item e el)" .
    moreover from True have "\<not> appended_for limit ef xf p item e el"
      unfolding appended_for_def by blast
    ultimately show ?thesis unfolding a by auto
  next
    case False
    then have nh: "\<not> startswith item ''.''"
      and ne: "\<not> should_exclude_path ef xf (p @ [item]) e" by simp_all
    show ?thesis
    proof (cases "isdir e")
      case True
      from Cons.prems(1) obtain kids rest where
        k: "build_structure_xml limit ef xf (p @ [item]) e = Inr kids" and
        r: "for_items limit ef xf p items = Inr rest" and
        els: "els = directory_element item (relpath (p @ [item])) kids # rest"
        unfolding a for_items_directory [OF nh ne True] by (auto split: sum.splits)
      from Cons.IH [OF r] have
        "el \<in> set rest \<longleftrightarrow> (\<exists>item e. (item, e) \<in> set items \<and> appended_for limit ef xf p item e el)" .
      moreover from False True k have
        "appended_for limit ef xf p item e el \<longleftrightarrow> el = directory_element item (relpath (p @ [item])) kids"
        unfolding appended_for_def by auto
      ultimately show ?thesis unfolding a els by auto
    next
      case nd: False
      from Cons.prems(1) obtain c rest where
        k: "read_file_content e = Inr c" and
        r: "for_items limit ef xf p items = Inr rest" and
        els: "els = file_element item (relpath (p @ [item])) c # rest"
        unfolding a for_items_file [OF nh ne nd] by (auto split: sum.splits)
      from Cons.IH [OF r] have
        "el \<in> set rest \<longleftrightarrow> (\<exists>item e. (item, e) \<in> set items \<and> appended_for limit ef xf p item e el)" .
      moreover from False nd k have
        "appended_for limit ef xf p item e el \<longleftrightarrow> el = file_element item (relpath (p @ [item])) c"
        unfolding appended_for_def by auto
      ultimately show ?thesis unfolding a els by auto
    qed
  qed
qed

lemma build_directory_elements:
  assumes "build_structure_xml limit ef xf p (Directory err entries) = Inr els"
  shows "el \<in> set els \<longleftrightarrow>
    err = None \<and> (\<exists>item e. (item, e) \<in> set entries \<and> appended_for limit ef xf p item e el)"
proof (cases err)
  case None
  with assms have "for_items limit ef xf p (sort_key fst entries) = Inr els"
    by (simp split: if_splits)
  from for_items_elements [OF this] None show ?thesis by simp
next
  case (Some x)
  with assms have "els = []" by (simp split: if_splits)
  with Some show ?thesis by simp
qed

lemma walk_extends:
  "(segs, e) \<in> set (walk q d) \<Longrightarrow> \<exists>more. segs = q @ more \<and> more \<noteq> []"
proof (induction d arbitrary: q)
  case (File x1 x2 x3)
  then show ?case by simp
next
  case (Directory err entries)
  from Directory.prems obtain item c where
    ic: "(item, c) \<in> set entries" and
    m: "(segs, e) = (q @ [item], c) \<or> (segs, e) \<in> set (walk (q @ [item]) c)"
    by auto
  from m show ?case
  proof
    assume "(segs, e) = (q @ [item], c)"
    then show ?thesis by simp
  next
    assume w: "(segs, e) \<in> set (walk (q @ [item]) c)"
    have "c \<in> Basic_BNFs.snds (item, c)" by simp
    from Directory.IH [OF ic this w] show ?thesis by auto
  qed
qed


lemma walk_child:
  "(item, e) \<in> set entries \<Longrightarrow> (p @ [item], e) \<in> set (walk p (Directory err entries))"
  by force

lemma walk_below_child:
  "(item, e) \<in> set entries \<Longrightarrow> x \<in> set (walk (p @ [item]) e) \<Longrightarrow>
   x \<in> set (walk p (Directory err entries))"
  by force

lemma nodes_come_from_entries:
  "build_structure_xml limit ef xf p d = Inr els \<Longrightarrow> el \<in> set (iter_all els) \<Longrightarrow>
   (tag el = ''content'' \<and> attrib el = [])
   \<or> (\<exists>segs e. (segs, e) \<in> set (walk p d) \<and> node_of ef xf p el segs e)"
proof (induction d arbitrary: p els el)
  case (File x1 x2 x3)
  then show ?case by (simp split: if_splits)
next
  case (Directory err entries)
  from Directory.prems(2) obtain top where top: "top \<in> set els" and el: "el \<in> set (iter top)"
    unfolding iter_all_def by auto
  from build_directory_elements [OF Directory.prems(1), of top] top obtain item e where
    ie: "(item, e) \<in> set entries" and ap: "appended_for limit ef xf p item e top"
    by blast
  from ap have nh: "\<not> startswith item ''.''"
    and ne: "\<not> should_exclude_path ef xf (p @ [item]) e"
    unfolding appended_for_def by simp_all
  have self: "node_of ef xf p top (p @ [item]) e"
    using ap nh ne unfolding appended_for_def node_of_def
    by (auto simp: directory_element_def file_element_def)
  show ?case
  proof (cases "el = top")
    case True
    with self walk_child [OF ie] show ?thesis by blast
  next
    case False
    show ?thesis
    proof (cases "isdir e")
      case True
      with ap obtain kids where
        k: "build_structure_xml limit ef xf (p @ [item]) e = Inr kids" and
        t: "top = directory_element item (relpath (p @ [item])) kids"
        unfolding appended_for_def by blast
      from el False t have "el \<in> set (iter_all kids)"
        unfolding iter_all_def directory_element_def by simp
      from Directory.IH [OF ie _ k this] have
        "(tag el = ''content'' \<and> attrib el = [])
         \<or> (\<exists>segs e'. (segs, e') \<in> set (walk (p @ [item]) e)
               \<and> node_of ef xf (p @ [item]) el segs e')"
        by simp
      then show ?thesis
      proof
        assume "tag el = ''content'' \<and> attrib el = []"
        then show ?thesis by blast
      next
        assume "\<exists>segs e'. (segs, e') \<in> set (walk (p @ [item]) e)
                  \<and> node_of ef xf (p @ [item]) el segs e'"
        then obtain segs e' where
          w: "(segs, e') \<in> set (walk (p @ [item]) e)" and
          n: "node_of ef xf (p @ [item]) el segs e'"
          by blast
        from walk_extends [OF w] obtain more where more: "segs = (p @ [item]) @ more" by blast
        then have "drop (length p) segs = item # drop (length (p @ [item])) segs" by simp
        with n nh have "node_of ef xf p el segs e'"
          unfolding node_of_def by simp
        with walk_below_child [OF ie w] show ?thesis by blast
      qed
    next
      case nd: False
      with ap obtain c where
        t: "top = file_element item (relpath (p @ [item])) c"
        unfolding appended_for_def by blast
      from el False t have "el = Element ''content'' [] (Some c) []"
        unfolding file_element_def by simp
      then show ?thesis by simp
    qed
  qed
qed

text \<open>
  C1. The exclusion predicate holds for a directory exactly when a contiguous run of the
  segments of its relative path equals the segments of an excluded-folder pattern (a
  window anywhere in the path, compared segment by segment). When the relative path \<open>rel\<close>
  contains such a run, no element of the resulting tree has the path \<open>rel\<close> or a path whose
  segments extend those of \<open>rel\<close>: the entry and everything below it are absent.
\<close>

theorem excluded_folder_subtree_absent:
  "(should_exclude_path ef xf path (Directory err entries)
      \<longleftrightarrow> (\<exists>pat \<in> set ef. sublist (str_split CHR ''/'' pat) (str_split CHR ''/'' (relpath path))))
   \<and> (build_structure_xml limit ef xf [] root = Inr els \<longrightarrow> folder_match ef rel \<longrightarrow>
        (\<forall>el \<in> set (iter_all els). \<forall>rel'. get el ''path'' = Some rel' \<longrightarrow>
            \<not> prefix (str_split CHR ''/'' rel) (str_split CHR ''/'' rel')))"
proof (intro conjI impI ballI allI)
  show "should_exclude_path ef xf path (Directory err entries)
      \<longleftrightarrow> (\<exists>pat \<in> set ef. sublist (str_split CHR ''/'' pat) (str_split CHR ''/'' (relpath path)))"
    by (simp add: should_exclude_path_iff folder_match_def)
next
  fix el rel'
  assume b: "build_structure_xml limit ef xf [] root = Inr els"
    and m: "folder_match ef rel"
    and el: "el \<in> set (iter_all els)"
    and g: "get el ''path'' = Some rel'"
  from g have "attrib el \<noteq> []" by auto
  with nodes_come_from_entries [OF b el] obtain segs e where
    n: "node_of ef xf [] el segs e" by blast
  with g have rel': "rel' = relpath segs" and ne: "\<not> should_exclude_path ef xf segs e"
    unfolding node_of_def by simp_all
  from ne have nm: "\<not> folder_match ef rel'"
    unfolding rel' should_exclude_path_iff by simp
  show "\<not> prefix (str_split CHR ''/'' rel) (str_split CHR ''/'' rel')"
  proof
    assume pre: "prefix (str_split CHR ''/'' rel) (str_split CHR ''/'' rel')"
    from m obtain pat where pat: "pat \<in> set ef"
      and sub: "sublist (str_split CHR ''/'' pat) (str_split CHR ''/'' rel)"
      unfolding folder_match_def by blast
    from sub prefix_imp_sublist [OF pre]
    have "sublist (str_split CHR ''/'' pat) (str_split CHR ''/'' rel')"
      by (rule sublist_order.order.trans)
    with pat nm show False unfolding folder_match_def by blast
  qed
qed


lemma a_py_content: "read_file_content a_py = Inr [120, 61, 49]"
  by (simp add: a_py_def sanitize_def control_class_def)

lemma a_py_not_dir: "\<not> isdir a_py"
  by (simp add: a_py_def)

lemma a_py_regular: "isfile a_py"
  by (simp add: a_py_def)

lemma not_hidden_examples:
  "\<not> startswith ''a.py'' ''.''" "\<not> startswith ''sub'' ''.''" "\<not> startswith ''locked'' ''.''"
  "\<not> startswith ''d'' ''.''" "\<not> startswith ''secret.env'' ''.''"
  by code_simp+

lemma relpath_examples:
  "relpath [''a.py''] = ''a.py''" "relpath [''sub''] = ''sub''" "relpath [''locked''] = ''locked''"
  "relpath [''d''] = ''d''" "relpath [''secret.env''] = ''secret.env''"
  "relpath [''sub'', ''b.txt''] = ''sub/b.txt''"
  by code_simp+

lemma folder_match_sub: "folder_match [''sub''] ''sub''"
  by code_simp

lemma not_folder_match_sub_a_py: "\<not> folder_match [''sub''] ''a.py''"
  by code_simp

lemma build_scenario_sub:
  "build_structure_xml 1000 [''sub''] [] [] scenario_sub = Inr [file_element ''a.py'' ''a.py'' [120, 61, 49]]"
proof -
  have s: "sort_key fst [(''sub'', Directory None [(''b.txt'', b_txt)]), (''a.py'', a_py)]
      = [(''a.py'', a_py), (''sub'', Directory None [(''b.txt'', b_txt)])]"
    by code_simp
  have x1: "\<not> should_exclude_path [''sub''] [] [''a.py''] a_py"
    unfolding should_exclude_path_iff relpath_examples file_match_def
    using not_folder_match_sub_a_py by simp
  have x2: "should_exclude_path [''sub''] [] [''sub''] (Directory None [(''b.txt'', b_txt)])"
    unfolding should_exclude_path_iff relpath_examples using folder_match_sub by simp
  show ?thesis
    unfolding scenario_sub_def
    by (simp add: s x1 x2 not_hidden_examples relpath_examples a_py_content a_py_not_dir)
qed

theorem excluded_folder_subtree_absent_witness:
  "should_exclude_path [''sub''] [] [''sub''] (Directory None [(''b.txt'', b_txt)])
   \<and> build_structure_xml 1000 [''sub''] [] [] scenario_sub = Inr [file_element ''a.py'' ''a.py'' [120, 61, 49]]
   \<and> folder_match [''sub''] ''sub''
   \<and> get (file_element ''a.py'' ''a.py'' [120, 61, 49]) ''path'' = Some ''a.py''
   \<and> \<not> prefix (str_split CHR ''/'' ''sub'') (str_split CHR ''/'' ''a.py'')"
proof -
  note t = excluded_folder_subtree_absent
    [of "[''sub'']" "[]" "[''sub'']" None "[(''b.txt'', b_txt)]" 1000 scenario_sub
        "[file_element ''a.py'' ''a.py'' [120, 61, 49]]" "''sub''"]
  have run: "\<exists>pat \<in> set [''sub'']. sublist (str_split CHR ''/'' pat) (str_split CHR ''/'' (relpath [''sub'']))"
    using folder_match_sub unfolding folder_match_def relpath_examples .
  from t run have x: "should_exclude_path [''sub''] [] [''sub''] (Directory None [(''b.txt'', b_txt)])"
    by blast
  have m: "file_element ''a.py'' ''a.py'' [120, 61, 49]
      \<in> set (iter_all [file_element ''a.py'' ''a.py'' [120, 61, 49]])"
    unfolding iter_all_def file_element_def by simp
  have g: "get (file_element ''a.py'' ''a.py'' [120, 61, 49]) ''path'' = Some ''a.py''"
    unfolding file_element_def by simp
  from t [THEN conjunct2, rule_format, OF build_scenario_sub folder_match_sub m g]
  have "\<not> prefix (str_split CHR ''/'' ''sub'') (str_split CHR ''/'' ''a.py'')" .
  with x build_scenario_sub folder_match_sub g show ?thesis by blast
qed

lemma iter_root_element:
  "set (iter (root_element os repo_folder ef xf els)) =
     {root_element os repo_folder ef xf els, Element ''structure'' [] None els} \<union> set (iter_all els)"
  unfolding root_element_def iter_all_def by auto

lemma tag_root_element: "tag (root_element os repo_folder ef xf els) = ''repository''"
  unfolding root_element_def by simp

text \<open>
  C6. Every file or directory node of the document is the node of an entry of the
  directory tree for which the exclusion predicate, under the rules of the run, is
  false, and no name on the path of that entry begins with a dot, whatever the exclusion
  lists are.
\<close>

theorem nodes_not_excluded_not_hidden:
  assumes "build_structure_xml limit ef xf [] root = Inr els"
    and "el \<in> set (iter (root_element os repo_folder ef xf els))"
    and "tag el = ''file'' \<or> tag el = ''directory''"
  shows "\<exists>segs e. (segs, e) \<in> set (walk [] root)
           \<and> get el ''path'' = Some (relpath segs) \<and> get el ''name'' = Some (last segs)
           \<and> \<not> should_exclude_path ef xf segs e
           \<and> (\<forall>s \<in> set segs. \<not> startswith s ''.'')"
proof -
  from assms(2,3) have "el \<in> set (iter_all els)"
    unfolding iter_root_element using tag_root_element [of os repo_folder ef xf els] by auto
  from nodes_come_from_entries [OF assms(1) this] assms(3)
  obtain segs e where w: "(segs, e) \<in> set (walk [] root)" and n: "node_of ef xf [] el segs e"
    by auto
  from n have "get el ''path'' = Some (relpath segs)" "get el ''name'' = Some (last segs)"
    "\<not> should_exclude_path ef xf segs e" "\<forall>s \<in> set segs. \<not> startswith s ''.''"
    unfolding node_of_def by simp_all
  with w show ?thesis by blast
qed

lemma build_scenario_hidden:
  "build_structure_xml 1000 [] [] [] scenario_hidden = Inr [file_element ''a.py'' ''a.py'' [120, 61, 49]]"
proof -
  have s: "sort_key fst [(''.git'', Directory None [(''config'', b_txt)]), (''a.py'', a_py)]
      = [(''.git'', Directory None [(''config'', b_txt)]), (''a.py'', a_py)]"
    by code_simp
  have h: "startswith ''.git'' ''.''" by code_simp
  have x1: "\<not> should_exclude_path [] [] [''a.py''] a_py"
    unfolding should_exclude_path_iff file_match_def folder_match_def by simp
  show ?thesis
    unfolding scenario_hidden_def
    by (simp add: s h x1 not_hidden_examples relpath_examples a_py_content a_py_not_dir)
qed

theorem nodes_not_excluded_not_hidden_witness:
  "build_structure_xml 1000 [] [] [] scenario_hidden = Inr [file_element ''a.py'' ''a.py'' [120, 61, 49]]
   \<and> tag (file_element ''a.py'' ''a.py'' [120, 61, 49]) = ''file''
   \<and> (\<exists>segs e. (segs, e) \<in> set (walk [] scenario_hidden)
         \<and> get (file_element ''a.py'' ''a.py'' [120, 61, 49]) ''path'' = Some (relpath segs)
         \<and> get (file_element ''a.py'' ''a.py'' [120, 61, 49]) ''name'' = Some (last segs)
         \<and> \<not> should_exclude_path [] [] segs e
         \<and> (\<forall>s \<in> set segs. \<not> startswith s ''.''))"
proof -
  have m: "file_element ''a.py'' ''a.py'' [120, 61, 49]
      \<in> set (iter (root_element simple_platform ''/repo'' [] []
                     [file_element ''a.py'' ''a.py'' [120, 61, 49]]))"
    unfolding iter_root_element iter_all_def file_element_def by simp
  have t: "tag (file_element ''a.py'' ''a.py'' [120, 61, 49]) = ''file''"
    unfolding file_element_def by simp
  from nodes_not_excluded_not_hidden [OF build_scenario_hidden m] t build_scenario_hidden
  show ?thesis by blast
qed

lemma for_items_single_file:
  "\<not> startswith item ''.'' \<Longrightarrow> \<not> should_exclude_path ef xf (p @ [item]) (File regular sz content) \<Longrightarrow>
   read_file_content (File regular sz content) = Inr txt \<Longrightarrow>
   for_items limit ef xf p [(item, File regular sz content)] =
     Inr [Element ''file''
            [(''name'', item), (''path'', relpath (p @ [item])), (''language'', language_of item)] None
            [Element ''content'' [] (Some txt) []]]"
  by (simp add: file_element_def del: read_file_content.simps)

lemma not_excluded_by_empty_lists: "\<not> should_exclude_path [] [] path e"
  unfolding should_exclude_path_iff file_match_def folder_match_def by simp

lemma language_of_a_py: "language_of ''a.py'' = ''python''"
  by code_simp

text \<open>
  C3. A file whose size is exactly \<open>10 * 1024 * 1024\<close> bytes, or less, is read, and the
  \<^verbatim>\<open>content\<close> child of its file node holds its sanitized content. A file whose size is
  greater, by one byte or more, is not read: whatever reading it would give, the \<^verbatim>\<open>content\<close>
  child of its file node holds the placeholder that reports the size.
\<close>

theorem size_boundary:
  "read_file_content (File regular (Inr (10 * 1024 * 1024)) (Inr c)) = Inr (sanitize c)
   \<and> (file_size \<le> 10 * 1024 * 1024 \<longrightarrow>
        read_file_content (File regular (Inr file_size) (Inr c)) = Inr (sanitize c))
   \<and> read_file_content (File regular (Inr (10 * 1024 * 1024 + 1)) content)
        = Inr (text_of ''[File too large: 10485761 bytes]'')
   \<and> (file_size > 10 * 1024 * 1024 \<longrightarrow>
        read_file_content (File regular (Inr file_size) content)
          = Inr (text_of (''[File too large: '' @ str_nat file_size @ '' bytes]'')))
   \<and> (\<not> startswith item ''.'' \<longrightarrow>
        \<not> should_exclude_path ef xf (p @ [item]) (File regular (Inr (10 * 1024 * 1024)) (Inr c)) \<longrightarrow>
        for_items limit ef xf p [(item, File regular (Inr (10 * 1024 * 1024)) (Inr c))]
          = Inr [Element ''file''
                   [(''name'', item), (''path'', relpath (p @ [item])), (''language'', language_of item)]
                   None [Element ''content'' [] (Some (sanitize c)) []]])
   \<and> (\<not> startswith item ''.'' \<longrightarrow>
        \<not> should_exclude_path ef xf (p @ [item]) (File regular (Inr (10 * 1024 * 1024 + 1)) content) \<longrightarrow>
        for_items limit ef xf p [(item, File regular (Inr (10 * 1024 * 1024 + 1)) content)]
          = Inr [Element ''file''
                   [(''name'', item), (''path'', relpath (p @ [item])), (''language'', language_of item)]
                   None [Element ''content'' [] (Some (text_of ''[File too large: 10485761 bytes]'')) []]])"
proof -
  have exact: "read_file_content (File regular (Inr (10 * 1024 * 1024)) (Inr c)) = Inr (sanitize c)"
    by simp
  have below: "file_size \<le> 10 * 1024 * 1024 \<longrightarrow>
        read_file_content (File regular (Inr file_size) (Inr c)) = Inr (sanitize c)"
    by simp
  have one_more: "read_file_content (File regular (Inr (10 * 1024 * 1024 + 1)) content)
        = Inr (text_of ''[File too large: 10485761 bytes]'')"
    by simp
  have above: "file_size > 10 * 1024 * 1024 \<longrightarrow>
        read_file_content (File regular (Inr file_size) content)
          = Inr (text_of (''[File too large: '' @ str_nat file_size @ '' bytes]''))"
    by (simp del: str_nat.simps)
  have node_exact: "\<not> startswith item ''.'' \<longrightarrow>
        \<not> should_exclude_path ef xf (p @ [item]) (File regular (Inr (10 * 1024 * 1024)) (Inr c)) \<longrightarrow>
        for_items limit ef xf p [(item, File regular (Inr (10 * 1024 * 1024)) (Inr c))]
          = Inr [Element ''file''
                   [(''name'', item), (''path'', relpath (p @ [item])), (''language'', language_of item)]
                   None [Element ''content'' [] (Some (sanitize c)) []]]"
    using for_items_single_file [OF _ _ exact] by blast
  have node_more: "\<not> startswith item ''.'' \<longrightarrow>
        \<not> should_exclude_path ef xf (p @ [item]) (File regular (Inr (10 * 1024 * 1024 + 1)) content) \<longrightarrow>
        for_items limit ef xf p [(item, File regular (Inr (10 * 1024 * 1024 + 1)) content)]
          = Inr [Element ''file''
                   [(''name'', item), (''path'', relpath (p @ [item])), (''language'', language_of item)]
                   None [Element ''content'' [] (Some (text_of ''[File too large: 10485761 bytes]'')) []]]"
    using for_items_single_file [OF _ _ one_more] by blast
  from exact below one_more above node_exact node_more show ?thesis by blast
qed

theorem size_boundary_witness:
  "read_file_content (File True (Inr 10485760) (Inr [104, 0, 105])) = Inr [104, 105]
   \<and> read_file_content (File True (Inr 10485762) (Inl Blocked))
        = Inr (text_of ''[File too large: 10485762 bytes]'')
   \<and> for_items 1000 [] [] [] [(''a.py'', File True (Inr (10 * 1024 * 1024)) (Inr [104, 0, 105]))]
        = Inr [Element ''file'' [(''name'', ''a.py''), (''path'', ''a.py''), (''language'', ''python'')]
                 None [Element ''content'' [] (Some [104, 105]) []]]
   \<and> for_items 1000 [] [] [] [(''a.py'', File True (Inr (10 * 1024 * 1024 + 1)) (Inr [104, 0, 105]))]
        = Inr [Element ''file'' [(''name'', ''a.py''), (''path'', ''a.py''), (''language'', ''python'')]
                 None [Element ''content'' [] (Some (text_of ''[File too large: 10485761 bytes]'')) []]]"
proof -
  note t1 = size_boundary [of True "[104, 0, 105]" 10485760 "Inr [104, 0, 105]" "''a.py''" "[]" "[]" "[]" 1000]
  note t2 = size_boundary [of True "[104, 0, 105]" 10485762 "Inl Blocked" "''a.py''" "[]" "[]" "[]" 1000]
  have s: "sanitize [104, 0, 105] = [104, 105]"
    by (simp add: sanitize_def control_class_def)
  have n: "str_nat 10485762 = ''10485762''" by simp
  have a: "read_file_content (File True (Inr 10485760) (Inr [104, 0, 105])) = Inr [104, 105]"
    using t1 s by simp
  have b: "read_file_content (File True (Inr 10485762) (Inl Blocked))
        = Inr (text_of ''[File too large: 10485762 bytes]'')"
    using t2 n by simp
  have r: "relpath ([] @ [''a.py'']) = ''a.py''" using relpath_examples(1) by simp
  from t1 [THEN conjunct2, THEN conjunct2, THEN conjunct2, THEN conjunct2, THEN conjunct1, rule_format,
      OF not_hidden_examples(1) not_excluded_by_empty_lists]
  have c: "for_items 1000 [] [] [] [(''a.py'', File True (Inr (10 * 1024 * 1024)) (Inr [104, 0, 105]))]
        = Inr [Element ''file'' [(''name'', ''a.py''), (''path'', ''a.py''), (''language'', ''python'')]
                 None [Element ''content'' [] (Some [104, 105]) []]]"
    unfolding r s language_of_a_py .
  from t1 [THEN conjunct2, THEN conjunct2, THEN conjunct2, THEN conjunct2, THEN conjunct2, rule_format,
      OF not_hidden_examples(1) not_excluded_by_empty_lists]
  have d: "for_items 1000 [] [] [] [(''a.py'', File True (Inr (10 * 1024 * 1024 + 1)) (Inr [104, 0, 105]))]
        = Inr [Element ''file'' [(''name'', ''a.py''), (''path'', ''a.py''), (''language'', ''python'')]
                 None [Element ''content'' [] (Some (text_of ''[File too large: 10485761 bytes]'')) []]]"
    unfolding r language_of_a_py .
  from a b c d show ?thesis by blast
qed

lemma for_items_appends:
  "for_items limit ef xf p items = Inr els \<Longrightarrow> (item, e) \<in> set items \<Longrightarrow>
   \<not> startswith item ''.'' \<Longrightarrow> \<not> should_exclude_path ef xf (p @ [item]) e \<Longrightarrow>
   \<exists>el. appended_for limit ef xf p item e el"
proof (induction items arbitrary: els)
  case Nil
  then show ?case by simp
next
  case (Cons a items)
  obtain item' e' where a: "a = (item', e')" by (cases a)
  show ?case
  proof (cases "startswith item' ''.'' \<or> should_exclude_path ef xf (p @ [item']) e'")
    case True
    with Cons.prems(1) a have r: "for_items limit ef xf p items = Inr els"
      by (simp only: for_items_skip)
    from True Cons.prems(2-4) a have "(item, e) \<in> set items" by auto
    from Cons.IH [OF r this Cons.prems(3,4)] show ?thesis .
  next
    case False
    then have nh: "\<not> startswith item' ''.''"
      and ne: "\<not> should_exclude_path ef xf (p @ [item']) e'" by simp_all
    show ?thesis
    proof (cases "isdir e'")
      case True
      from Cons.prems(1) obtain kids rest where
        k: "build_structure_xml limit ef xf (p @ [item']) e' = Inr kids" and
        r: "for_items limit ef xf p items = Inr rest"
        unfolding a for_items_directory [OF nh ne True] by (auto split: sum.splits)
      show ?thesis
      proof (cases "(item, e) = (item', e')")
        case same: True
        with nh ne True k show ?thesis unfolding appended_for_def by auto
      next
        case False
        with Cons.prems(2) a have "(item, e) \<in> set items" by auto
        from Cons.IH [OF r this Cons.prems(3,4)] show ?thesis .
      qed
    next
      case nd: False
      from Cons.prems(1) obtain c rest where
        k: "read_file_content e' = Inr c" and
        r: "for_items limit ef xf p items = Inr rest"
        unfolding a for_items_file [OF nh ne nd] by (auto split: sum.splits)
      show ?thesis
      proof (cases "(item, e) = (item', e')")
        case same: True
        with nh ne nd k show ?thesis unfolding appended_for_def by auto
      next
        case False
        with Cons.prems(2) a have "(item, e) \<in> set items" by auto
        from Cons.IH [OF r this Cons.prems(3,4)] show ?thesis .
      qed
    qed
  qed
qed

lemma build_directory_appends:
  assumes "build_structure_xml limit ef xf p (Directory None entries) = Inr els"
    and "(item, e) \<in> set entries"
    and "\<not> startswith item ''.''" and "\<not> should_exclude_path ef xf (p @ [item]) e"
  shows "\<exists>el. el \<in> set els \<and> appended_for limit ef xf p item e el"
proof -
  from assms(1) have f: "for_items limit ef xf p (sort_key fst entries) = Inr els"
    by (simp split: if_splits)
  from assms(2) have "(item, e) \<in> set (sort_key fst entries)" by simp
  from for_items_appends [OF f this assms(3,4)] obtain el where
    a: "appended_for limit ef xf p item e el" by blast
  with build_directory_elements [OF assms(1), of el] assms(2) show ?thesis by blast
qed

lemma appended_for_name: "appended_for limit ef xf p item e el \<Longrightarrow> get el ''name'' = Some item"
  unfolding appended_for_def directory_element_def file_element_def by auto

lemma b_txt_content: "read_file_content b_txt = Inr [104, 105]"
  by (simp add: b_txt_def sanitize_def control_class_def)

lemma b_txt_not_dir: "\<not> isdir b_txt"
  by (simp add: b_txt_def)

lemma language_of_b_txt: "language_of ''b.txt'' = ''text''"
  by code_simp

lemma build_scenario_docs:
  "build_structure_xml 1000 [] [''docs''] [] scenario_docs =
     Inr [Element ''directory'' [(''name'', ''docs''), (''path'', ''docs'')] None
            [Element ''file'' [(''name'', ''b.txt''), (''path'', ''docs/b.txt''), (''language'', ''text'')]
               None [Element ''content'' [] (Some [104, 105]) []]]]"
proof -
  have h: "\<not> startswith ''docs'' ''.''" "\<not> startswith ''b.txt'' ''.''" by code_simp+
  have r: "relpath [''docs''] = ''docs''" "relpath [''docs'', ''b.txt''] = ''docs/b.txt''"
    by code_simp+
  have x1: "\<not> should_exclude_path [] [''docs''] [''docs''] (Directory None [(''b.txt'', b_txt)])"
    unfolding should_exclude_path_iff folder_match_def by simp
  have x2: "\<not> should_exclude_path [] [''docs''] [''docs'', ''b.txt''] b_txt"
    by code_simp
  show ?thesis
    unfolding scenario_docs_def
    by (simp add: h r x1 x2 b_txt_content b_txt_not_dir language_of_b_txt
        directory_element_def file_element_def)
qed

text \<open>
  C10, as the code has it. The exclusion predicate gives the same answer on a directory
  for every list of excluded files: only the excluded-folder patterns decide. When the
  traversal of a listed directory returns, each directory in it, with a name that does
  not begin with a dot and a path that no excluded-folder pattern matches, has been
  traversed, and its node, holding the nodes of that traversal, is in the tree, also when
  its path equals or ends with an entry of the excluded files.
\<close>

theorem directory_kept_despite_file_patterns:
  "should_exclude_path ef xf path (Directory err sub) = should_exclude_path ef [] path (Directory err sub)
   \<and> (should_exclude_path ef xf path (Directory err sub) \<longleftrightarrow> folder_match ef (relpath path))
   \<and> (build_structure_xml limit ef xf p (Directory None entries) = Inr els \<longrightarrow>
        (item, Directory err sub) \<in> set entries \<longrightarrow>
        \<not> startswith item ''.'' \<longrightarrow>
        \<not> folder_match ef (relpath (p @ [item])) \<longrightarrow>
        (\<exists>kids. build_structure_xml limit ef xf (p @ [item]) (Directory err sub) = Inr kids
           \<and> Element ''directory'' [(''name'', item), (''path'', relpath (p @ [item]))] None kids
               \<in> set els))"
proof (intro conjI impI)
  show "should_exclude_path ef xf path (Directory err sub)
      = should_exclude_path ef [] path (Directory err sub)"
    unfolding should_exclude_path_iff by simp
  show "should_exclude_path ef xf path (Directory err sub) \<longleftrightarrow> folder_match ef (relpath path)"
    unfolding should_exclude_path_iff by simp
next
  assume b: "build_structure_xml limit ef xf p (Directory None entries) = Inr els"
    and m: "(item, Directory err sub) \<in> set entries"
    and nh: "\<not> startswith item ''.''"
    and nf: "\<not> folder_match ef (relpath (p @ [item]))"
  from nf have ne: "\<not> should_exclude_path ef xf (p @ [item]) (Directory err sub)"
    unfolding should_exclude_path_iff by simp
  from build_directory_appends [OF b m nh ne] obtain el where
    "el \<in> set els" "appended_for limit ef xf p item (Directory err sub) el" by blast
  then show "\<exists>kids. build_structure_xml limit ef xf (p @ [item]) (Directory err sub) = Inr kids
           \<and> Element ''directory'' [(''name'', item), (''path'', relpath (p @ [item]))] None kids
               \<in> set els"
    unfolding appended_for_def directory_element_def by auto
qed

theorem directory_kept_despite_file_patterns_witness:
  "file_match [''docs''] (relpath [''docs''])
   \<and> \<not> should_exclude_path [] [''docs''] [''docs''] (Directory None [(''b.txt'', b_txt)])
   \<and> build_structure_xml 1000 [] [''docs''] [] scenario_docs =
       Inr [Element ''directory'' [(''name'', ''docs''), (''path'', ''docs'')] None
              [Element ''file'' [(''name'', ''b.txt''), (''path'', ''docs/b.txt''), (''language'', ''text'')]
                 None [Element ''content'' [] (Some [104, 105]) []]]]
   \<and> (\<exists>kids. build_structure_xml 1000 [] [''docs''] ([] @ [''docs'']) (Directory None [(''b.txt'', b_txt)]) = Inr kids
         \<and> Element ''directory'' [(''name'', ''docs''), (''path'', relpath ([] @ [''docs'']))] None kids
             \<in> set [Element ''directory'' [(''name'', ''docs''), (''path'', ''docs'')] None
              [Element ''file'' [(''name'', ''b.txt''), (''path'', ''docs/b.txt''), (''language'', ''text'')]
                 None [Element ''content'' [] (Some [104, 105]) []]]])"
proof -
  note t = directory_kept_despite_file_patterns
    [of "[]" "[''docs'']" "[''docs'']" None "[(''b.txt'', b_txt)]" 1000 "[]"
        "[(''docs'', Directory None [(''b.txt'', b_txt)])]"
        "[Element ''directory'' [(''name'', ''docs''), (''path'', ''docs'')] None
              [Element ''file'' [(''name'', ''b.txt''), (''path'', ''docs/b.txt''), (''language'', ''text'')]
                 None [Element ''content'' [] (Some [104, 105]) []]]]"
        "''docs''"]
  have fm: "file_match [''docs''] (relpath [''docs''])" by code_simp
  have nf: "\<not> folder_match [] (relpath ([] @ [''docs'']))" unfolding folder_match_def by simp
  have nh: "\<not> startswith ''docs'' ''.''" by code_simp
  have b: "build_structure_xml 1000 [] [''docs''] [] (Directory None [(''docs'', Directory None [(''b.txt'', b_txt)])]) =
       Inr [Element ''directory'' [(''name'', ''docs''), (''path'', ''docs'')] None
              [Element ''file'' [(''name'', ''b.txt''), (''path'', ''docs/b.txt''), (''language'', ''text'')]
                 None [Element ''content'' [] (Some [104, 105]) []]]]"
    using build_scenario_docs unfolding scenario_docs_def .
  have m: "(''docs'', Directory None [(''b.txt'', b_txt)])
      \<in> set [(''docs'', Directory None [(''b.txt'', b_txt)])]" by simp
  from t [THEN conjunct2, THEN conjunct1] nf
  have x: "\<not> should_exclude_path [] [''docs''] [''docs''] (Directory None [(''b.txt'', b_txt)])"
    by simp
  note t [THEN conjunct2, THEN conjunct2, rule_format, OF b m nh nf]
  with fm x build_scenario_docs show ?thesis by blast
qed

text \<open>
  The claim as it is written fails for a hidden directory: \<^verbatim>\<open>.docs\<close> is a directory whose
  path equals an entry of the excluded files and that no excluded-folder pattern matches
  (there is none), and it is neither traversed nor in the tree.
\<close>

theorem hidden_directory_absent:
  "isdir (Directory None [(''b.txt'', b_txt)])
   \<and> file_match [''.docs''] (relpath [''.docs''])
   \<and> \<not> folder_match [] (relpath [''.docs''])
   \<and> scenario_hidden_docs = Directory None [(''.docs'', Directory None [(''b.txt'', b_txt)])]
   \<and> build_structure_xml 1000 [] [''.docs''] [] scenario_hidden_docs = Inr []"
proof -
  have fm: "file_match [''.docs''] (relpath [''.docs''])" by code_simp
  have nf: "\<not> folder_match [] (relpath [''.docs''])" unfolding folder_match_def by simp
  have h: "startswith ''.docs'' ''.''" by code_simp
  have b: "build_structure_xml 1000 [] [''.docs''] [] scenario_hidden_docs = Inr []"
    unfolding scenario_hidden_docs_def by (simp add: h)
  from fm nf b show ?thesis unfolding scenario_hidden_docs_def by simp
qed

lemma build_scenario_secret:
  "0 < limit \<Longrightarrow> build_structure_xml limit [] [''secret.env''] [] scenario_secret = Inr []"
proof -
  have x: "should_exclude_path [] [''secret.env''] [''secret.env''] (File True (Inr 0) (Inr []))"
    by code_simp
  assume "0 < limit"
  then show ?thesis unfolding scenario_secret_def by (simp add: x)
qed

text \<open>
  C5, as the code has it. Take an entry that is not a directory, in a directory whose
  traversal returns (a listing holds no name twice), with a name that does not begin
  with a dot. It is left out of the
  tree exactly when \<^verbatim>\<open>os.path.isfile\<close> holds for it and its relative path equals an entry of
  the excluded files or ends with a separator followed by the entry, or when its path
  contains a run of segments equal to an excluded-folder pattern. Otherwise its file node,
  with the content that the loader returns, is in the tree. With the root holding only
  \<^verbatim>\<open>secret.env\<close> and the excluded files \<^verbatim>\<open>["secret.env"]\<close> the tree has no node.
\<close>

theorem file_excluded_iff:
  "(build_structure_xml limit ef xf p (Directory None entries) = Inr els \<longrightarrow>
    (item, File regular sz content) \<in> set entries \<longrightarrow>
    distinct (map fst entries) \<longrightarrow>
    \<not> startswith item ''.'' \<longrightarrow>
      ((\<forall>el \<in> set els. get el ''name'' \<noteq> Some item)
         \<longleftrightarrow> (regular \<and> file_match xf (relpath (p @ [item]))) \<or> folder_match ef (relpath (p @ [item])))
      \<and> (\<not> (regular \<and> file_match xf (relpath (p @ [item])))
           \<and> \<not> folder_match ef (relpath (p @ [item])) \<longrightarrow>
           (\<exists>c. read_file_content (File regular sz content) = Inr c
              \<and> Element ''file''
                   [(''name'', item), (''path'', relpath (p @ [item])), (''language'', language_of item)]
                   None [Element ''content'' [] (Some c) []] \<in> set els)))
   \<and> (0 < limit \<longrightarrow> build_structure_xml limit [] [''secret.env''] [] scenario_secret = Inr [])"
proof (intro conjI impI)
  assume "0 < limit"
  then show "build_structure_xml limit [] [''secret.env''] [] scenario_secret = Inr []"
    by (rule build_scenario_secret)
next
  assume b: "build_structure_xml limit ef xf p (Directory None entries) = Inr els"
    and m: "(item, File regular sz content) \<in> set entries"
    and d: "distinct (map fst entries)"
    and nh: "\<not> startswith item ''.''"
  let ?f = "File regular sz content"
  have ex: "should_exclude_path ef xf (p @ [item]) ?f
      \<longleftrightarrow> (regular \<and> file_match xf (relpath (p @ [item]))) \<or> folder_match ef (relpath (p @ [item]))"
    unfolding should_exclude_path_iff by simp
  show "(\<forall>el \<in> set els. get el ''name'' \<noteq> Some item)
         \<longleftrightarrow> (regular \<and> file_match xf (relpath (p @ [item]))) \<or> folder_match ef (relpath (p @ [item]))"
  proof
    assume absent: "\<forall>el \<in> set els. get el ''name'' \<noteq> Some item"
    show "(regular \<and> file_match xf (relpath (p @ [item]))) \<or> folder_match ef (relpath (p @ [item]))"
    proof (rule ccontr)
      assume "\<not> ((regular \<and> file_match xf (relpath (p @ [item]))) \<or> folder_match ef (relpath (p @ [item])))"
      with ex have ne: "\<not> should_exclude_path ef xf (p @ [item]) ?f" by simp
      from build_directory_appends [OF b m nh ne] obtain el where
        "el \<in> set els" "appended_for limit ef xf p item ?f el" by blast
      with absent appended_for_name show False by blast
    qed
  next
    assume "(regular \<and> file_match xf (relpath (p @ [item]))) \<or> folder_match ef (relpath (p @ [item]))"
    with ex have excl: "should_exclude_path ef xf (p @ [item]) ?f" by simp
    show "\<forall>el \<in> set els. get el ''name'' \<noteq> Some item"
    proof
      fix el assume el: "el \<in> set els"
      with build_directory_elements [OF b, of el] obtain item' e' where
        m': "(item', e') \<in> set entries" and a: "appended_for limit ef xf p item' e' el" by blast
      show "get el ''name'' \<noteq> Some item"
      proof
        assume "get el ''name'' = Some item"
        with appended_for_name [OF a] have "item' = item" by simp
        with m m' d have "e' = ?f" by (metis eq_key_imp_eq_value)
        with a \<open>item' = item\<close> excl show False unfolding appended_for_def by simp
      qed
    qed
  qed
next
  assume b: "build_structure_xml limit ef xf p (Directory None entries) = Inr els"
    and m: "(item, File regular sz content) \<in> set entries"
    and nh: "\<not> startswith item ''.''"
    and nm: "\<not> (regular \<and> file_match xf (relpath (p @ [item])))
           \<and> \<not> folder_match ef (relpath (p @ [item]))"
  then have ne: "\<not> should_exclude_path ef xf (p @ [item]) (File regular sz content)"
    unfolding should_exclude_path_iff by simp
  from build_directory_appends [OF b m nh ne] obtain el where
    "el \<in> set els" "appended_for limit ef xf p item (File regular sz content) el" by blast
  then show "\<exists>c. read_file_content (File regular sz content) = Inr c
              \<and> Element ''file''
                   [(''name'', item), (''path'', relpath (p @ [item])), (''language'', language_of item)]
                   None [Element ''content'' [] (Some c) []] \<in> set els"
    unfolding appended_for_def file_element_def by auto
qed

lemma build_scenario_sub_explicit:
  "build_structure_xml 1000 [''sub''] [] [] scenario_sub =
     Inr [Element ''file'' [(''name'', ''a.py''), (''path'', ''a.py''), (''language'', ''python'')]
            None [Element ''content'' [] (Some [120, 61, 49]) []]]"
  using build_scenario_sub unfolding file_element_def language_of_a_py .

theorem file_excluded_iff_witness:
  "build_structure_xml 1000 [] [''secret.env''] [] (Directory None [(''secret.env'', File True (Inr 0) (Inr []))]) = Inr []
   \<and> distinct (map fst [(''secret.env'', File True (Inr 0) (Inr []))])
   \<and> \<not> startswith ''secret.env'' ''.''
   \<and> ((\<forall>el \<in> set []. get el ''name'' \<noteq> Some ''secret.env'')
        \<longleftrightarrow> (True \<and> file_match [''secret.env''] (relpath ([] @ [''secret.env''])))
            \<or> folder_match [] (relpath ([] @ [''secret.env''])))
   \<and> build_structure_xml 1000 [''sub''] [] [] scenario_sub =
       Inr [Element ''file'' [(''name'', ''a.py''), (''path'', ''a.py''), (''language'', ''python'')]
              None [Element ''content'' [] (Some [120, 61, 49]) []]]
   \<and> \<not> (True \<and> file_match [] (relpath ([] @ [''a.py''])))
   \<and> \<not> folder_match [''sub''] (relpath ([] @ [''a.py'']))
   \<and> (\<exists>c. read_file_content (File True (Inr 3) (Inr [120, 61, 49])) = Inr c
         \<and> Element ''file''
              [(''name'', ''a.py''), (''path'', relpath ([] @ [''a.py''])), (''language'', language_of ''a.py'')]
              None [Element ''content'' [] (Some c) []]
            \<in> set [Element ''file'' [(''name'', ''a.py''), (''path'', ''a.py''), (''language'', ''python'')]
                      None [Element ''content'' [] (Some [120, 61, 49]) []]])"
proof -
  note t1 = file_excluded_iff
    [of 1000 "[]" "[''secret.env'']" "[]" "[(''secret.env'', File True (Inr 0) (Inr []))]" "[]"
        "''secret.env''" True "Inr 0" "Inr []", THEN conjunct1, rule_format]
  note t2 = file_excluded_iff
    [of 1000 "[''sub'']" "[]" "[]" "[(''sub'', Directory None [(''b.txt'', b_txt)]), (''a.py'', a_py)]"
        "[Element ''file'' [(''name'', ''a.py''), (''path'', ''a.py''), (''language'', ''python'')]
              None [Element ''content'' [] (Some [120, 61, 49]) []]]"
        "''a.py''" True "Inr 3" "Inr [120, 61, 49]", THEN conjunct1, rule_format]
  have b1: "build_structure_xml 1000 [] [''secret.env''] []
      (Directory None [(''secret.env'', File True (Inr 0) (Inr []))]) = Inr []"
    using build_scenario_secret [of 1000] unfolding scenario_secret_def by simp
  have m1: "(''secret.env'', File True (Inr 0) (Inr []))
      \<in> set [(''secret.env'', File True (Inr 0) (Inr []))]" by simp
  have d1: "distinct (map fst [(''secret.env'', File True (Inr 0) (Inr []))])" by simp
  have b2: "build_structure_xml 1000 [''sub''] [] []
      (Directory None [(''sub'', Directory None [(''b.txt'', b_txt)]), (''a.py'', a_py)])
      = Inr [Element ''file'' [(''name'', ''a.py''), (''path'', ''a.py''), (''language'', ''python'')]
              None [Element ''content'' [] (Some [120, 61, 49]) []]]"
    using build_scenario_sub_explicit unfolding scenario_sub_def .
  have m2: "(''a.py'', File True (Inr 3) (Inr [120, 61, 49]))
      \<in> set [(''sub'', Directory None [(''b.txt'', b_txt)]), (''a.py'', a_py)]"
    by (simp add: a_py_def)
  have d2: "distinct (map fst [(''sub'', Directory None [(''b.txt'', b_txt)]), (''a.py'', a_py)])"
    by simp
  have nm: "\<not> (True \<and> file_match [] (relpath ([] @ [''a.py''])))
      \<and> \<not> folder_match [''sub''] (relpath ([] @ [''a.py'']))"
    using not_folder_match_sub_a_py relpath_examples(1) by (simp add: file_match_def)
  note r1 = t1 [OF b1 m1 d1 not_hidden_examples(5), THEN conjunct1]
  note r2 = t2 [OF b2 m2 d2 not_hidden_examples(1), THEN conjunct2, rule_format, OF nm]
  from b1 d1 not_hidden_examples(5) r1 build_scenario_sub_explicit nm r2 show ?thesis by blast
qed

text \<open>
  The claim as it is written fails on the scenario of the specification: with the
  excluded folder \<^verbatim>\<open>sub\<close> and no excluded file, the regular file \<^verbatim>\<open>sub/b.txt\<close> is an entry of
  the directory tree, the resulting tree holds the node of \<^verbatim>\<open>a.py\<close> only, and no entry of
  the excluded files matches the path of the file.
\<close>

theorem file_absent_without_file_pattern:
  "([''sub'', ''b.txt''], b_txt) \<in> set (walk [] scenario_sub)
   \<and> isfile b_txt
   \<and> build_structure_xml 1000 [''sub''] [] [] scenario_sub =
       Inr [Element ''file'' [(''name'', ''a.py''), (''path'', ''a.py''), (''language'', ''python'')]
              None [Element ''content'' [] (Some [120, 61, 49]) []]]
   \<and> relpath [''sub'', ''b.txt''] = ''sub/b.txt''
   \<and> \<not> file_match [] (relpath [''sub'', ''b.txt''])"
proof -
  have w: "([''sub'', ''b.txt''], b_txt) \<in> set (walk [] scenario_sub)"
    unfolding scenario_sub_def by simp
  have f: "isfile b_txt" by (simp add: b_txt_def)
  have n: "\<not> file_match [] (relpath [''sub'', ''b.txt''])" by (simp add: file_match_def)
  from w f build_scenario_sub_explicit relpath_examples(6) n show ?thesis by blast
qed

section \<open>Errors during the run\<close>

lemma handle_read_error_caught:
  "is_read_error e \<Longrightarrow>
   handle_read_error e = Inr (text_of (''[Binary or unreadable file: '' @ str_exc e @ '']''))"
  unfolding handle_read_error_def by simp

lemma read_file_content_total:
  "recoverable n f \<Longrightarrow> \<not> isdir f \<Longrightarrow> \<exists>c. read_file_content f = Inr c"
  by (cases f) (auto simp: handle_read_error_def split: sum.splits failure.splits)

lemma for_items_total:
  "(\<And>item e. (item, e) \<in> set items \<Longrightarrow> isdir e \<Longrightarrow>
      \<exists>kids. build_structure_xml limit ef xf (p @ [item]) e = Inr kids) \<Longrightarrow>
   (\<And>item e. (item, e) \<in> set items \<Longrightarrow> \<not> isdir e \<Longrightarrow> \<exists>c. read_file_content e = Inr c) \<Longrightarrow>
   \<exists>els. for_items limit ef xf p items = Inr els"
proof (induction items)
  case Nil
  then show ?case by simp
next
  case (Cons a items)
  obtain item e where a: "a = (item, e)" by (cases a)
  from Cons.IH Cons.prems obtain rest where r: "for_items limit ef xf p items = Inr rest"
    by (meson list.set_intros(2))
  show ?case
  proof (cases "startswith item ''.'' \<or> should_exclude_path ef xf (p @ [item]) e")
    case True
    then have "for_items limit ef xf p ((item, e) # items) = for_items limit ef xf p items"
      by (rule for_items_skip)
    with r show ?thesis unfolding a by simp
  next
    case False
    then have nh: "\<not> startswith item ''.''"
      and ne: "\<not> should_exclude_path ef xf (p @ [item]) e" by simp_all
    show ?thesis
    proof (cases "isdir e")
      case True
      with Cons.prems(1) [of item e] a obtain kids where
        "build_structure_xml limit ef xf (p @ [item]) e = Inr kids" by auto
      with r show ?thesis unfolding a for_items_directory [OF nh ne True] by simp
    next
      case nd: False
      with Cons.prems(2) [of item e] a obtain c where "read_file_content e = Inr c" by auto
      with r show ?thesis unfolding a for_items_file [OF nh ne nd] by simp
    qed
  qed
qed

lemma build_total:
  "recoverable (limit - length p) d \<Longrightarrow> isdir d \<Longrightarrow>
   \<exists>els. build_structure_xml limit ef xf p d = Inr els"
proof (induction d arbitrary: p)
  case (File x1 x2 x3)
  then show ?case by simp
next
  case (Directory err entries)
  from Directory.prems(1) have l: "length p < limit" by simp
  show ?case
  proof (cases err)
    case (Some e)
    with Directory.prems(1) l show ?thesis by simp
  next
    case None
    have r: "recoverable (limit - length (p @ [item])) e" if "(item, e) \<in> set entries" for item e
    proof -
      from that Directory.prems(1) None have "recoverable (limit - length p - 1) e" by auto
      then show ?thesis by simp
    qed
    have dirs: "\<exists>kids. build_structure_xml limit ef xf (p @ [item]) e = Inr kids"
      if "(item, e) \<in> set (sort_key fst entries)" "isdir e" for item e
    proof -
      from that(1) have m: "(item, e) \<in> set entries" by simp
      from Directory.IH [OF m _ r [OF m] that(2)] show ?thesis by simp
    qed
    have files: "\<exists>c. read_file_content e = Inr c"
      if "(item, e) \<in> set (sort_key fst entries)" "\<not> isdir e" for item e
    proof -
      from that(1) have m: "(item, e) \<in> set entries" by simp
      from read_file_content_total [OF r [OF m] that(2)] show ?thesis .
    qed
    from for_items_total [of "sort_key fst entries" limit ef xf p, OF dirs files] None l
    show ?thesis by simp
  qed
qed

lemma for_items_failure:
  "(item, e) \<in> set items \<Longrightarrow> \<not> startswith item ''.'' \<Longrightarrow>
   \<not> should_exclude_path ef xf (p @ [item]) e \<Longrightarrow>
   (if isdir e then build_structure_xml limit ef xf (p @ [item]) e = Inl x
    else read_file_content e = Inl x) \<Longrightarrow>
   \<exists>y. for_items limit ef xf p items = Inl y"
proof (induction items)
  case Nil
  then show ?case by simp
next
  case (Cons a items)
  obtain item' e' where a: "a = (item', e')" by (cases a)
  show ?case
  proof (cases "(item', e') = (item, e)")
    case True
    then have i: "item' = item" "e' = e" by simp_all
    show ?thesis
    proof (cases "isdir e")
      case True
      with Cons.prems(4) show ?thesis
        unfolding a i for_items_directory [OF Cons.prems(2,3) True] by simp
    next
      case False
      with Cons.prems(4) show ?thesis
        unfolding a i for_items_file [OF Cons.prems(2,3) False] by simp
    qed
  next
    case False
    with Cons.prems(1) a have "(item, e) \<in> set items" by auto
    from Cons.IH [OF this Cons.prems(2,3,4)] obtain y where
      y: "for_items limit ef xf p items = Inl y" by blast
    show ?thesis
    proof (cases "startswith item' ''.'' \<or> should_exclude_path ef xf (p @ [item']) e'")
      case True
      then have "for_items limit ef xf p ((item', e') # items) = for_items limit ef xf p items"
        by (rule for_items_skip)
      with y show ?thesis unfolding a by simp
    next
      case False
      then have nh: "\<not> startswith item' ''.''"
        and ne: "\<not> should_exclude_path ef xf (p @ [item']) e'" by simp_all
      show ?thesis
      proof (cases "isdir e'")
        case True
        with y show ?thesis unfolding a for_items_directory [OF nh ne True]
          by (simp split: sum.splits)
      next
        case nd: False
        with y show ?thesis unfolding a for_items_file [OF nh ne nd]
          by (simp split: sum.splits)
      qed
    qed
  qed
qed

lemma visited_cases:
  assumes "(q, d) \<in> set (visited ef xf p (Directory None entries))"
  obtains item e where "(item, e) \<in> set entries" "\<not> startswith item ''.''"
    "\<not> should_exclude_path ef xf (p @ [item]) e"
    "(q = p @ [item] \<and> d = e) \<or> (q, d) \<in> set (visited ef xf (p @ [item]) e)"
  using assms by (auto split: if_splits)

lemma visited_failure_aborts:
  "(q, d) \<in> set (visited ef xf p r) \<Longrightarrow>
   (if isdir d then build_structure_xml limit ef xf q d = Inl x else read_file_content d = Inl x) \<Longrightarrow>
   \<exists>y. build_structure_xml limit ef xf p r = Inl y"
proof (induction r arbitrary: p)
  case (File x1 x2 x3)
  then show ?case by simp
next
  case (Directory err entries)
  show ?case
  proof (cases err)
    case (Some e)
    with Directory.prems(1) show ?thesis by simp
  next
    case None
    from Directory.prems(1) [unfolded None] obtain item e where
      m: "(item, e) \<in> set entries" and nh: "\<not> startswith item ''.''"
      and ne: "\<not> should_exclude_path ef xf (p @ [item]) e"
      and c: "(q = p @ [item] \<and> d = e) \<or> (q, d) \<in> set (visited ef xf (p @ [item]) e)"
      by (rule visited_cases)
    have "\<exists>z. (if isdir e then build_structure_xml limit ef xf (p @ [item]) e = Inl z
                else read_file_content e = Inl z)"
    proof (cases "q = p @ [item] \<and> d = e")
      case True
      with Directory.prems(2) show ?thesis by auto
    next
      case False
      with c have v: "(q, d) \<in> set (visited ef xf (p @ [item]) e)" by simp
      then have "isdir e" by (cases e) auto
      moreover from Directory.IH [OF m _ v Directory.prems(2)]
      have "\<exists>z. build_structure_xml limit ef xf (p @ [item]) e = Inl z" by simp
      ultimately show ?thesis by simp
    qed
    then obtain z where z: "if isdir e then build_structure_xml limit ef xf (p @ [item]) e = Inl z
                else read_file_content e = Inl z" by blast
    from m have m': "(item, e) \<in> set (sort_key fst entries)" by simp
    from for_items_failure [OF m' nh ne z] None show ?thesis by auto
  qed
qed

lemma visited_file_node:
  "(q, d) \<in> set (visited ef xf p r) \<Longrightarrow> \<not> isdir d \<Longrightarrow>
   build_structure_xml limit ef xf p r = Inr kids \<Longrightarrow>
   \<exists>c. read_file_content d = Inr c \<and> file_element (last q) (relpath q) c \<in> set (iter_all kids)"
proof (induction r arbitrary: p kids)
  case (File x1 x2 x3)
  then show ?case by simp
next
  case (Directory err entries)
  show ?case
  proof (cases err)
    case (Some e)
    with Directory.prems(1) show ?thesis by simp
  next
    case None
    from Directory.prems(1) [unfolded None] obtain item e where
      m: "(item, e) \<in> set entries" and nh: "\<not> startswith item ''.''"
      and ne: "\<not> should_exclude_path ef xf (p @ [item]) e"
      and c: "(q = p @ [item] \<and> d = e) \<or> (q, d) \<in> set (visited ef xf (p @ [item]) e)"
      by (rule visited_cases)
    from Directory.prems(3) have b: "build_structure_xml limit ef xf p (Directory None entries) = Inr kids"
      unfolding None .
    from build_directory_appends [OF b m nh ne] obtain el where
      el: "el \<in> set kids" and a: "appended_for limit ef xf p item e el" by blast
    from el have sub: "set (iter el) \<subseteq> set (iter_all kids)" unfolding iter_all_def by auto
    show ?thesis
    proof (cases "q = p @ [item] \<and> d = e")
      case True
      with a Directory.prems(2) obtain c where
        "read_file_content d = Inr c" "el = file_element (last q) (relpath q) c"
        unfolding appended_for_def by auto
      moreover have "el \<in> set (iter el)" by (cases el) simp
      ultimately show ?thesis using sub by blast
    next
      case False
      with c have v: "(q, d) \<in> set (visited ef xf (p @ [item]) e)" by simp
      then have "isdir e" by (cases e) auto
      with a obtain kids' where k: "build_structure_xml limit ef xf (p @ [item]) e = Inr kids'"
        and e: "el = directory_element item (relpath (p @ [item])) kids'"
        unfolding appended_for_def by auto
      from Directory.IH [OF m _ v Directory.prems(2) k] obtain c where
        r: "read_file_content d = Inr c"
        and i: "file_element (last q) (relpath q) c \<in> set (iter_all kids')" by auto
      from i have "file_element (last q) (relpath q) c \<in> set (iter el)"
        unfolding e directory_element_def iter_all_def by simp
      with r sub show ?thesis by blast
    qed
  qed
qed

lemma describe_not_a_directory:
  "repo = None \<or> (\<exists>r. repo = Some r \<and> \<not> isdir r) \<Longrightarrow>
   describe_repo_contents_xml os repo repo_folder output_path efa xfa
     = (Inl (Raised (not_a_valid_directory repo_folder)), None)"
  unfolding describe_repo_contents_xml_def Let_def by auto

lemma describe_build_fails:
  "isdir r \<Longrightarrow>
   build_structure_xml (recursion_limit os) (case efa of None \<Rightarrow> [] | Some l \<Rightarrow> l)
     (case xfa of None \<Rightarrow> [] | Some l \<Rightarrow> l) [] r = Inl x \<Longrightarrow>
   describe_repo_contents_xml os (Some r) repo_folder output_path efa xfa = (Inl x, None)"
  unfolding describe_repo_contents_xml_def Let_def by simp

lemma describe_succeeds:
  assumes "isdir r"
    and "build_structure_xml (recursion_limit os) (case efa of None \<Rightarrow> [] | Some l \<Rightarrow> l)
           (case xfa of None \<Rightarrow> [] | Some l \<Rightarrow> l) [] r = Inr kids"
    and "output_written os output_path
           (root_element os repo_folder (case efa of None \<Rightarrow> [] | Some l \<Rightarrow> l)
              (case xfa of None \<Rightarrow> [] | Some l \<Rightarrow> l) kids) pretty_xml"
  shows "describe_repo_contents_xml os (Some r) repo_folder output_path efa xfa
         = (Inr output_path, Some (strip_blank_lines pretty_xml))"
  using assms unfolding describe_repo_contents_xml_def output_written_def Let_def by simp

lemma describe_output_fails:
  assumes "isdir r"
    and "build_structure_xml (recursion_limit os) (case efa of None \<Rightarrow> [] | Some l \<Rightarrow> l)
           (case xfa of None \<Rightarrow> [] | Some l \<Rightarrow> l) [] r = Inr kids"
    and "\<not> (\<exists>pretty_xml. output_written os output_path
           (root_element os repo_folder (case efa of None \<Rightarrow> [] | Some l \<Rightarrow> l)
              (case xfa of None \<Rightarrow> [] | Some l \<Rightarrow> l) kids) pretty_xml)"
  shows "\<exists>e. describe_repo_contents_xml os (Some r) repo_folder output_path efa xfa
         = (Inl (Raised e), None)"
  using assms unfolding describe_repo_contents_xml_def output_written_def Let_def
  by (auto split: option.splits sum.splits)

lemma main_status:
  "isdir r \<Longrightarrow>
   main os (Some r) src outp ex exf =
     (case describe_repo_contents_xml os (Some r) (abspath os src) (abspath os outp) (Some ex) (Some exf) of
        (Inr p, written) \<Rightarrow> (Some 0, written)
      | (Inl (Raised e), written) \<Rightarrow> (Some 1, written)
      | (Inl Blocked, written) \<Rightarrow> (None, written))"
  unfolding main_def Let_def by simp

lemma main_not_a_directory:
  "repo = None \<or> (\<exists>r. repo = Some r \<and> \<not> isdir r) \<Longrightarrow> main os repo src outp ex exf = (Some 1, None)"
  unfolding main_def Let_def by auto

lemma abspath_simple_platform: "abspath simple_platform p = p"
  unfolding simple_platform_def by simp

lemma recursion_limit_simple_platform: "recursion_limit simple_platform = 1000"
  unfolding simple_platform_def by simp

lemma output_written_simple_platform:
  "output_written simple_platform output_path root (serialize root)"
  unfolding output_written_def simple_platform_def by simp

lemma build_scenario_io_error:
  "build_structure_xml 1000 [] [] [] scenario_io_error
     = Inl (Raised (OSError ''[Errno 5] Input/output error''))"
proof -
  have s: "sort_key fst [(''d'', Directory (Some (OSError ''[Errno 5] Input/output error'')) []), (''a.py'', a_py)]
      = [(''a.py'', a_py), (''d'', Directory (Some (OSError ''[Errno 5] Input/output error'')) [])]"
    by code_simp
  show ?thesis
    unfolding scenario_io_error_def
    by (simp add: s not_excluded_by_empty_lists not_hidden_examples a_py_content a_py_not_dir)
qed

lemma build_scenario_locked:
  "build_structure_xml 1000 [] [] [] scenario_locked =
     Inr [Element ''file'' [(''name'', ''a.py''), (''path'', ''a.py''), (''language'', ''python'')]
            None [Element ''content'' [] (Some [120, 61, 49]) []],
          Element ''directory'' [(''name'', ''locked''), (''path'', ''locked'')] None []]"
proof -
  have s: "sort_key fst [(''locked'', locked), (''a.py'', a_py)] = [(''a.py'', a_py), (''locked'', locked)]"
    by code_simp
  have l: "isdir locked" "build_structure_xml 1000 [] [] [''locked''] locked = Inr []"
    unfolding locked_def by simp_all
  show ?thesis
    unfolding scenario_locked_def
    by (simp add: s l not_excluded_by_empty_lists not_hidden_examples relpath_examples
        a_py_content a_py_not_dir file_element_def directory_element_def language_of_a_py)
qed

lemma key_pem_content:
  "read_file_content key_pem
     = Inr (text_of ''[Binary or unreadable file: [Errno 13] Permission denied]'')"
  unfolding key_pem_def by (simp add: handle_read_error_def)

lemma build_scenario_unreadable:
  "build_structure_xml 1000 [] [] [] scenario_unreadable =
     Inr [Element ''file'' [(''name'', ''key.pem''), (''path'', ''key.pem''), (''language'', ''text'')]
            None [Element ''content'' []
                    (Some (text_of ''[Binary or unreadable file: [Errno 13] Permission denied]'')) []],
          Element ''file'' [(''name'', ''z.py''), (''path'', ''z.py''), (''language'', ''python'')]
            None [Element ''content'' [] (Some [120, 61, 49]) []]]"
proof -
  have s: "sort_key fst [(''key.pem'', key_pem), (''z.py'', a_py)] = [(''key.pem'', key_pem), (''z.py'', a_py)]"
    by code_simp
  have nh: "\<not> startswith ''key.pem'' ''.''" "\<not> startswith ''z.py'' ''.''" by code_simp+
  have r: "relpath [''key.pem''] = ''key.pem''" "relpath [''z.py''] = ''z.py''" by code_simp+
  have l: "language_of ''key.pem'' = ''text''" "language_of ''z.py'' = ''python''" by code_simp+
  have k: "\<not> isdir key_pem" unfolding key_pem_def by simp
  show ?thesis
    unfolding scenario_unreadable_def
    by (simp add: s nh r l k not_excluded_by_empty_lists a_py_content a_py_not_dir key_pem_content
        file_element_def)
qed

text \<open>
  C2. What the code does on the scenario of the claim, where \<^verbatim>\<open>locked\<close> cannot be listed and
  lies beside \<^verbatim>\<open>a.py\<close>: the directory node of \<^verbatim>\<open>locked\<close> is in the tree, without children,
  and it is in the document that the run writes before it returns with status 0. The
  node is created before the directory is listed, and the handler of the
  \<^verbatim>\<open>PermissionError\<close>, whose comment is \<^verbatim>\<open>Skip directories we can't read\<close>, only returns.
\<close>

theorem unlistable_directory_node_present:
  "scenario_locked = Directory None [(''locked'', locked), (''a.py'', a_py)]
   \<and> locked = Directory (Some (PermissionError ''[Errno 13] Permission denied'')) [(''b.txt'', b_txt)]
   \<and> build_structure_xml 1000 [] [] [] scenario_locked =
       Inr [Element ''file'' [(''name'', ''a.py''), (''path'', ''a.py''), (''language'', ''python'')]
              None [Element ''content'' [] (Some [120, 61, 49]) []],
            Element ''directory'' [(''name'', ''locked''), (''path'', ''locked'')] None []]
   \<and> main simple_platform (Some scenario_locked) ''/repo'' ''/out/repo.xml'' [] [] =
       (Some 0,
        Some (strip_blank_lines (serialize (root_element simple_platform ''/repo'' [] []
          [Element ''file'' [(''name'', ''a.py''), (''path'', ''a.py''), (''language'', ''python'')]
              None [Element ''content'' [] (Some [120, 61, 49]) []],
           Element ''directory'' [(''name'', ''locked''), (''path'', ''locked'')] None []]))))"
proof -
  have d: "isdir scenario_locked" unfolding scenario_locked_def by simp
  have b: "build_structure_xml (recursion_limit simple_platform)
      (case Some [] of None \<Rightarrow> [] | Some l \<Rightarrow> l) (case Some [] of None \<Rightarrow> [] | Some l \<Rightarrow> l) []
      scenario_locked =
       Inr [Element ''file'' [(''name'', ''a.py''), (''path'', ''a.py''), (''language'', ''python'')]
              None [Element ''content'' [] (Some [120, 61, 49]) []],
            Element ''directory'' [(''name'', ''locked''), (''path'', ''locked'')] None []]"
    using build_scenario_locked by (simp add: recursion_limit_simple_platform)
  have w: "output_written simple_platform ''/out/repo.xml''
      (root_element simple_platform ''/repo'' (case Some [] of None \<Rightarrow> [] | Some l \<Rightarrow> l)
         (case Some [] of None \<Rightarrow> [] | Some l \<Rightarrow> l)
         [Element ''file'' [(''name'', ''a.py''), (''path'', ''a.py''), (''language'', ''python'')]
              None [Element ''content'' [] (Some [120, 61, 49]) []],
          Element ''directory'' [(''name'', ''locked''), (''path'', ''locked'')] None []])
      (serialize (root_element simple_platform ''/repo'' (case Some [] of None \<Rightarrow> [] | Some l \<Rightarrow> l)
         (case Some [] of None \<Rightarrow> [] | Some l \<Rightarrow> l)
         [Element ''file'' [(''name'', ''a.py''), (''path'', ''a.py''), (''language'', ''python'')]
              None [Element ''content'' [] (Some [120, 61, 49]) []],
          Element ''directory'' [(''name'', ''locked''), (''path'', ''locked'')] None []]))"
    by (rule output_written_simple_platform)
  from describe_succeeds [OF d b w]
  have m: "main simple_platform (Some scenario_locked) ''/repo'' ''/out/repo.xml'' [] [] =
       (Some 0,
        Some (strip_blank_lines (serialize (root_element simple_platform ''/repo'' [] []
          [Element ''file'' [(''name'', ''a.py''), (''path'', ''a.py''), (''language'', ''python'')]
              None [Element ''content'' [] (Some [120, 61, 49]) []],
           Element ''directory'' [(''name'', ''locked''), (''path'', ''locked'')] None []]))))"
    unfolding main_status [OF d] abspath_simple_platform by simp
  from scenario_locked_def locked_def build_scenario_locked m show ?thesis by blast
qed

text \<open>
  C7, as the code has it. When sizing or reading a file fails with a \<^verbatim>\<open>UnicodeDecodeError\<close>,
  a \<^verbatim>\<open>PermissionError\<close> or another \<^verbatim>\<open>OSError\<close>, the content loader raises nothing and returns
  \<^verbatim>\<open>[Binary or unreadable file: \<close> followed by the message of the exception and \<^verbatim>\<open>]\<close>; the class
  of the exception is not in it. The loop appends the file node with that text as its
  content and goes on with the remaining items. A file whose failures are all of these
  classes never makes the loader raise. When the root is a directory in which nothing
  aborts the traversal and the traversal reaches the file, the traversal returns a tree
  that holds the file node with the placeholder, and when the output stage succeeds for
  that tree the run returns the output path after writing the document.
\<close>

theorem read_failure_gives_placeholder:
  "(is_read_error e \<longrightarrow>
      (sz = Inl e \<or> (\<exists>n. sz = Inr n \<and> n \<le> 10 * 1024 * 1024 \<and> content = Inl (Raised e))) \<longrightarrow>
        read_file_content (File regular sz content)
          = Inr (text_of (''[Binary or unreadable file: '' @ str_exc e @ '']''))
        \<and> (\<not> startswith item ''.'' \<longrightarrow>
            \<not> should_exclude_path ef xf (p @ [item]) (File regular sz content) \<longrightarrow>
              for_items limit ef xf p ((item, File regular sz content) # items) =
                (case for_items limit ef xf p items of
                   Inl x \<Rightarrow> Inl x
                 | Inr rest \<Rightarrow>
                     Inr (Element ''file''
                            [(''name'', item), (''path'', relpath (p @ [item])),
                             (''language'', language_of item)] None
                            [Element ''content'' []
                               (Some (text_of (''[Binary or unreadable file: '' @ str_exc e @ '']''))) []]
                          # rest)))
        \<and> (isdir r \<longrightarrow> recoverable (recursion_limit os) r \<longrightarrow>
            (q, File regular sz content)
              \<in> set (visited (case efa of None \<Rightarrow> [] | Some l \<Rightarrow> l)
                         (case xfa of None \<Rightarrow> [] | Some l \<Rightarrow> l) [] r) \<longrightarrow>
              (\<exists>kids.
                 build_structure_xml (recursion_limit os) (case efa of None \<Rightarrow> [] | Some l \<Rightarrow> l)
                   (case xfa of None \<Rightarrow> [] | Some l \<Rightarrow> l) [] r = Inr kids
                 \<and> Element ''file''
                      [(''name'', last q), (''path'', relpath q), (''language'', language_of (last q))] None
                      [Element ''content'' []
                         (Some (text_of (''[Binary or unreadable file: '' @ str_exc e @ '']''))) []]
                    \<in> set (iter_all kids)
                 \<and> (\<forall>pretty_xml.
                      output_written os output_path
                        (root_element os repo_folder (case efa of None \<Rightarrow> [] | Some l \<Rightarrow> l)
                           (case xfa of None \<Rightarrow> [] | Some l \<Rightarrow> l) kids) pretty_xml \<longrightarrow>
                      describe_repo_contents_xml os (Some r) repo_folder output_path efa xfa
                        = (Inr output_path, Some (strip_blank_lines pretty_xml))))))
   \<and> (recoverable n (File regular sz content) \<longrightarrow>
        (\<exists>c. read_file_content (File regular sz content) = Inr c))"
proof (intro conjI impI)
  assume e: "is_read_error e"
    and f: "sz = Inl e \<or> (\<exists>n. sz = Inr n \<and> n \<le> 10 * 1024 * 1024 \<and> content = Inl (Raised e))"
  from f show c: "read_file_content (File regular sz content)
          = Inr (text_of (''[Binary or unreadable file: '' @ str_exc e @ '']''))"
    using handle_read_error_caught [OF e] by auto
  {
    assume nh: "\<not> startswith item ''.''"
      and ne: "\<not> should_exclude_path ef xf (p @ [item]) (File regular sz content)"
    have nd: "\<not> isdir (File regular sz content)" by simp
    show "for_items limit ef xf p ((item, File regular sz content) # items) =
                (case for_items limit ef xf p items of
                   Inl x \<Rightarrow> Inl x
                 | Inr rest \<Rightarrow>
                     Inr (Element ''file''
                            [(''name'', item), (''path'', relpath (p @ [item])),
                             (''language'', language_of item)] None
                            [Element ''content'' []
                               (Some (text_of (''[Binary or unreadable file: '' @ str_exc e @ '']''))) []]
                          # rest))"
      by (simp only: for_items_file [OF nh ne nd] c sum.case file_element_def)
  }
  assume d: "isdir r" and rec: "recoverable (recursion_limit os) r"
    and v: "(q, File regular sz content)
              \<in> set (visited (case efa of None \<Rightarrow> [] | Some l \<Rightarrow> l)
                         (case xfa of None \<Rightarrow> [] | Some l \<Rightarrow> l) [] r)"
  from rec have "recoverable (recursion_limit os - length ([] :: string list)) r" by simp
  from build_total [OF this d] obtain kids where
    k: "build_structure_xml (recursion_limit os) (case efa of None \<Rightarrow> [] | Some l \<Rightarrow> l)
             (case xfa of None \<Rightarrow> [] | Some l \<Rightarrow> l) [] r = Inr kids" by blast
  have nd: "\<not> isdir (File regular sz content)" by simp
  from visited_file_node [OF v nd k] c
  have i: "Element ''file''
              [(''name'', last q), (''path'', relpath q), (''language'', language_of (last q))] None
              [Element ''content'' []
                 (Some (text_of (''[Binary or unreadable file: '' @ str_exc e @ '']''))) []]
            \<in> set (iter_all kids)"
    unfolding file_element_def by auto
  have w: "\<forall>pretty_xml.
      output_written os output_path
        (root_element os repo_folder (case efa of None \<Rightarrow> [] | Some l \<Rightarrow> l)
           (case xfa of None \<Rightarrow> [] | Some l \<Rightarrow> l) kids) pretty_xml \<longrightarrow>
      describe_repo_contents_xml os (Some r) repo_folder output_path efa xfa
        = (Inr output_path, Some (strip_blank_lines pretty_xml))"
    using describe_succeeds [OF d k] by blast
  from k i w show "\<exists>kids.
                 build_structure_xml (recursion_limit os) (case efa of None \<Rightarrow> [] | Some l \<Rightarrow> l)
                   (case xfa of None \<Rightarrow> [] | Some l \<Rightarrow> l) [] r = Inr kids
                 \<and> Element ''file''
                      [(''name'', last q), (''path'', relpath q), (''language'', language_of (last q))] None
                      [Element ''content'' []
                         (Some (text_of (''[Binary or unreadable file: '' @ str_exc e @ '']''))) []]
                    \<in> set (iter_all kids)
                 \<and> (\<forall>pretty_xml.
                      output_written os output_path
                        (root_element os repo_folder (case efa of None \<Rightarrow> [] | Some l \<Rightarrow> l)
                           (case xfa of None \<Rightarrow> [] | Some l \<Rightarrow> l) kids) pretty_xml \<longrightarrow>
                      describe_repo_contents_xml os (Some r) repo_folder output_path efa xfa
                        = (Inr output_path, Some (strip_blank_lines pretty_xml)))"
    by blast
next
  assume "recoverable n (File regular sz content)"
  from read_file_content_total [OF this] show "\<exists>c. read_file_content (File regular sz content) = Inr c"
    by simp
qed

theorem read_failure_gives_placeholder_witness:
  "is_read_error (PermissionError ''[Errno 13] Permission denied'')
   \<and> read_file_content key_pem
       = Inr (text_of ''[Binary or unreadable file: [Errno 13] Permission denied]'')
   \<and> read_file_content (File False (Inl (OSError ''[Errno 2] No such file or directory'')) (Inr []))
       = Inr (text_of ''[Binary or unreadable file: [Errno 2] No such file or directory]'')
   \<and> for_items 1000 [] [] [] [(''key.pem'', key_pem), (''z.py'', a_py)]
       = Inr [Element ''file'' [(''name'', ''key.pem''), (''path'', ''key.pem''), (''language'', ''text'')]
                None [Element ''content'' []
                        (Some (text_of ''[Binary or unreadable file: [Errno 13] Permission denied]'')) []],
              Element ''file'' [(''name'', ''z.py''), (''path'', ''z.py''), (''language'', ''python'')]
                None [Element ''content'' [] (Some [120, 61, 49]) []]]
   \<and> isdir scenario_unreadable \<and> recoverable 1000 scenario_unreadable
   \<and> ([''key.pem''], key_pem) \<in> set (visited [] [] [] scenario_unreadable)
   \<and> Element ''file'' [(''name'', ''key.pem''), (''path'', ''key.pem''), (''language'', ''text'')]
        None [Element ''content'' []
                (Some (text_of ''[Binary or unreadable file: [Errno 13] Permission denied]'')) []]
      \<in> set (iter_all
          [Element ''file'' [(''name'', ''key.pem''), (''path'', ''key.pem''), (''language'', ''text'')]
             None [Element ''content'' []
                     (Some (text_of ''[Binary or unreadable file: [Errno 13] Permission denied]'')) []],
           Element ''file'' [(''name'', ''z.py''), (''path'', ''z.py''), (''language'', ''python'')]
             None [Element ''content'' [] (Some [120, 61, 49]) []]])
   \<and> describe_repo_contents_xml simple_platform (Some scenario_unreadable)
          ''/repo'' ''/out/repo.xml'' None None
       = (Inr ''/out/repo.xml'',
          Some (strip_blank_lines (serialize (root_element simple_platform ''/repo'' [] []
            [Element ''file'' [(''name'', ''key.pem''), (''path'', ''key.pem''), (''language'', ''text'')]
               None [Element ''content'' []
                       (Some (text_of ''[Binary or unreadable file: [Errno 13] Permission denied]'')) []],
             Element ''file'' [(''name'', ''z.py''), (''path'', ''z.py''), (''language'', ''python'')]
               None [Element ''content'' [] (Some [120, 61, 49]) []]]))))"
proof -
  let ?e = "PermissionError ''[Errno 13] Permission denied''"
  let ?e2 = "OSError ''[Errno 2] No such file or directory''"
  let ?K = "[Element ''file'' [(''name'', ''key.pem''), (''path'', ''key.pem''), (''language'', ''text'')]
               None [Element ''content'' []
                       (Some (text_of ''[Binary or unreadable file: [Errno 13] Permission denied]'')) []],
             Element ''file'' [(''name'', ''z.py''), (''path'', ''z.py''), (''language'', ''python'')]
               None [Element ''content'' [] (Some [120, 61, 49]) []]]"
  note t = read_failure_gives_placeholder
    [where e = ?e and sz = "Inr 12" and content = "Inl (Raised ?e)" and regular = True
       and item = "''key.pem''" and ef = "[]" and xf = "[]" and p = "[]" and limit = 1000
       and items = "[(''z.py'', a_py)]" and r = scenario_unreadable and os = simple_platform
       and q = "[''key.pem'']" and efa = None and xfa = None and output_path = "''/out/repo.xml''"
       and repo_folder = "''/repo''" and n = 0]
  note t2 = read_failure_gives_placeholder
    [where e = ?e2 and sz = "Inl ?e2" and content = "Inr []" and regular = False
       and item = "''key.pem''" and ef = "[]" and xf = "[]" and p = "[]" and limit = 1000
       and items = "[]" and r = scenario_unreadable and os = simple_platform
       and q = "[''key.pem'']" and efa = None and xfa = None and output_path = "''/out/repo.xml''"
       and repo_folder = "''/repo''" and n = 0]
  have e: "is_read_error ?e" by simp
  have e2: "is_read_error ?e2" by simp
  have f: "Inr 12 = Inl ?e \<or> (\<exists>n. (Inr 12 :: exn + nat) = Inr n \<and> n \<le> 10 * 1024 * 1024
      \<and> (Inl (Raised ?e) :: failure + unicode) = Inl (Raised ?e))" by simp
  have f2: "(Inl ?e2 :: exn + nat) = Inl ?e2 \<or> (\<exists>n. (Inl ?e2 :: exn + nat) = Inr n \<and> n \<le> 10 * 1024 * 1024
      \<and> (Inr [] :: failure + unicode) = Inl (Raised ?e2))" by simp
  have nh: "\<not> startswith ''key.pem'' ''.''" "\<not> startswith ''z.py'' ''.''" by code_simp+
  have r: "relpath ([] @ [''key.pem'']) = ''key.pem''" "relpath [''z.py''] = ''z.py''"
    "relpath [''key.pem''] = ''key.pem''" by code_simp+
  have l: "language_of ''key.pem'' = ''text''" "language_of ''z.py'' = ''python''" by code_simp+
  have rest: "for_items 1000 [] [] [] [(''z.py'', a_py)]
      = Inr [Element ''file'' [(''name'', ''z.py''), (''path'', ''z.py''), (''language'', ''python'')]
                None [Element ''content'' [] (Some [120, 61, 49]) []]]"
    by (simp add: nh r l not_excluded_by_empty_lists a_py_content a_py_not_dir file_element_def)
  have d: "isdir scenario_unreadable" unfolding scenario_unreadable_def by simp
  have rec: "recoverable 1000 scenario_unreadable"
    unfolding scenario_unreadable_def key_pem_def a_py_def by simp
  have rec': "recoverable (recursion_limit simple_platform) scenario_unreadable"
    using rec unfolding recursion_limit_simple_platform .
  have v: "([''key.pem''], key_pem) \<in> set (visited [] [] [] scenario_unreadable)"
    unfolding scenario_unreadable_def by (simp add: nh not_excluded_by_empty_lists)
  have v': "([''key.pem''], File True (Inr 12) (Inl (Raised ?e)))
      \<in> set (visited (case None of None \<Rightarrow> [] | Some l \<Rightarrow> l)
                  (case None of None \<Rightarrow> [] | Some l \<Rightarrow> l) [] scenario_unreadable)"
    using v unfolding key_pem_def by simp
  from t [THEN conjunct1, rule_format, OF e f, THEN conjunct1]
  have a: "read_file_content key_pem
       = Inr (text_of ''[Binary or unreadable file: [Errno 13] Permission denied]'')"
    unfolding key_pem_def by simp
  from t2 [THEN conjunct1, rule_format, OF e2 f2, THEN conjunct1]
  have a2: "read_file_content (File False (Inl ?e2) (Inr []))
       = Inr (text_of ''[Binary or unreadable file: [Errno 2] No such file or directory]'')"
    by simp
  from t [THEN conjunct1, rule_format, OF e f, THEN conjunct2, THEN conjunct1, rule_format,
      OF nh(1) not_excluded_by_empty_lists]
  have b: "for_items 1000 [] [] [] [(''key.pem'', key_pem), (''z.py'', a_py)] = Inr ?K"
    unfolding key_pem_def rest r l by simp
  from t [THEN conjunct1, rule_format, OF e f, THEN conjunct2, THEN conjunct2, rule_format,
      OF d rec' v']
  obtain kids where
    k: "build_structure_xml (recursion_limit simple_platform) [] [] [] scenario_unreadable = Inr kids"
    and i: "Element ''file''
              [(''name'', last [''key.pem'']), (''path'', relpath [''key.pem'']),
               (''language'', language_of (last [''key.pem'']))] None
              [Element ''content'' []
                 (Some (text_of (''[Binary or unreadable file: '' @ str_exc ?e @ '']''))) []]
            \<in> set (iter_all kids)"
    and w: "\<And>pretty_xml.
      output_written simple_platform ''/out/repo.xml''
        (root_element simple_platform ''/repo'' [] [] kids) pretty_xml \<Longrightarrow>
      describe_repo_contents_xml simple_platform (Some scenario_unreadable) ''/repo'' ''/out/repo.xml''
          None None
        = (Inr ''/out/repo.xml'', Some (strip_blank_lines pretty_xml))"
    by auto
  from k build_scenario_unreadable have kk: "kids = ?K"
    unfolding recursion_limit_simple_platform by simp
  have last_eq: "last [''key.pem''] = ''key.pem''" by simp
  from i have i': "Element ''file'' [(''name'', ''key.pem''), (''path'', ''key.pem''), (''language'', ''text'')]
        None [Element ''content'' []
                (Some (text_of ''[Binary or unreadable file: [Errno 13] Permission denied]'')) []]
      \<in> set (iter_all ?K)"
    unfolding kk last_eq r l by simp
  from w [OF output_written_simple_platform]
  have c: "describe_repo_contents_xml simple_platform (Some scenario_unreadable)
          ''/repo'' ''/out/repo.xml'' None None
       = (Inr ''/out/repo.xml'',
          Some (strip_blank_lines (serialize (root_element simple_platform ''/repo'' [] [] ?K))))"
    unfolding kk .
  from e a a2 b d rec v i' c show ?thesis by blast
qed

text \<open>
  The claim as it is written fails on a file that cannot be opened: the placeholder in
  the tree is built from the message of the exception, and the name of its class,
  \<^verbatim>\<open>PermissionError\<close>, does not occur in it. Two exceptions of different classes with the
  same message give the same placeholder.
\<close>

theorem placeholder_without_class_name:
  "key_pem = File True (Inr 12) (Inl (Raised (PermissionError ''[Errno 13] Permission denied'')))
   \<and> class_name (PermissionError ''[Errno 13] Permission denied'') = ''PermissionError''
   \<and> build_structure_xml 1000 [] [] [] scenario_unreadable =
       Inr [Element ''file'' [(''name'', ''key.pem''), (''path'', ''key.pem''), (''language'', ''text'')]
              None [Element ''content'' []
                      (Some (text_of ''[Binary or unreadable file: [Errno 13] Permission denied]'')) []],
            Element ''file'' [(''name'', ''z.py''), (''path'', ''z.py''), (''language'', ''python'')]
              None [Element ''content'' [] (Some [120, 61, 49]) []]]
   \<and> \<not> sublist (text_of ''PermissionError'')
          (text_of ''[Binary or unreadable file: [Errno 13] Permission denied]'')
   \<and> read_file_content (File True (Inr 12) (Inl (Raised (PermissionError ''denied''))))
       = read_file_content (File True (Inr 12) (Inl (Raised (OSError ''denied''))))
   \<and> class_name (PermissionError ''denied'') \<noteq> class_name (OSError ''denied'')"
proof -
  have n: "\<not> sublist (text_of ''PermissionError'')
          (text_of ''[Binary or unreadable file: [Errno 13] Permission denied]'')"
    by code_simp
  have s: "read_file_content (File True (Inr 12) (Inl (Raised (PermissionError ''denied''))))
       = read_file_content (File True (Inr 12) (Inl (Raised (OSError ''denied''))))"
    by (simp add: handle_read_error_def)
  have c: "class_name (PermissionError ''denied'') \<noteq> class_name (OSError ''denied'')" by simp
  have c': "class_name (PermissionError ''[Errno 13] Permission denied'') = ''PermissionError''"
    by simp
  from key_pem_def c' build_scenario_unreadable n s c show ?thesis by blast
qed

text \<open>
  C8, as the code has it. When the root path leads to nothing or not to a directory, the
  run raises the \<^verbatim>\<open>ValueError\<close> before the traversal, writes nothing, and \<^verbatim>\<open>main\<close> returns 1.
  When the root is a directory in which nothing aborts the traversal (every listing
  succeeds or raises \<^verbatim>\<open>PermissionError\<close>, every failure to size or read a file is of a class
  that the file branch catches, every read returns or raises, and no directory lies
  deeper than the recursion limit allows), the traversal returns a tree; when the output
  stage succeeds for the root element of that tree, the run returns the output path
  after writing the printed document, without its blank lines, in full, and \<^verbatim>\<open>main\<close> returns
  0; when the output stage fails for it, the run raises and \<^verbatim>\<open>main\<close> returns 1. When the
  traversal fails, the run fails in the same way and writes nothing, and \<^verbatim>\<open>main\<close> returns 1
  unless a read never returns. The traversal fails whenever it reaches a directory whose
  listing raises an exception that is not a \<^verbatim>\<open>PermissionError\<close>, a directory at a level that
  the recursion limit does not allow, or a file for which the content loader raises or
  never returns.
\<close>

theorem run_outcome:
  "((repo = None \<or> (\<exists>r'. repo = Some r' \<and> \<not> isdir r')) \<longrightarrow>
      describe_repo_contents_xml os repo repo_folder output_path efa xfa
        = (Inl (Raised (not_a_valid_directory repo_folder)), None)
      \<and> main os repo src outp ex exf = (Some 1, None))
   \<and> (isdir r \<longrightarrow> recoverable (recursion_limit os) r \<longrightarrow>
        (\<exists>kids.
           build_structure_xml (recursion_limit os) (case efa of None \<Rightarrow> [] | Some l \<Rightarrow> l)
             (case xfa of None \<Rightarrow> [] | Some l \<Rightarrow> l) [] r = Inr kids
           \<and> (\<forall>pretty_xml.
                output_written os output_path
                  (root_element os repo_folder (case efa of None \<Rightarrow> [] | Some l \<Rightarrow> l)
                     (case xfa of None \<Rightarrow> [] | Some l \<Rightarrow> l) kids) pretty_xml \<longrightarrow>
                describe_repo_contents_xml os (Some r) repo_folder output_path efa xfa
                  = (Inr output_path, Some (strip_blank_lines pretty_xml)))
           \<and> ((\<forall>pretty_xml.
                 \<not> output_written os output_path
                     (root_element os repo_folder (case efa of None \<Rightarrow> [] | Some l \<Rightarrow> l)
                        (case xfa of None \<Rightarrow> [] | Some l \<Rightarrow> l) kids) pretty_xml) \<longrightarrow>
                (\<exists>e. fst (describe_repo_contents_xml os (Some r) repo_folder output_path efa xfa)
                   = Inl (Raised e)))))
   \<and> (isdir r \<longrightarrow> recoverable (recursion_limit os) r \<longrightarrow>
        (\<exists>kids.
           build_structure_xml (recursion_limit os) ex exf [] r = Inr kids
           \<and> (\<forall>pretty_xml.
                output_written os (abspath os outp)
                  (root_element os (abspath os src) ex exf kids) pretty_xml \<longrightarrow>
                main os (Some r) src outp ex exf = (Some 0, Some (strip_blank_lines pretty_xml)))
           \<and> ((\<forall>pretty_xml.
                 \<not> output_written os (abspath os outp)
                     (root_element os (abspath os src) ex exf kids) pretty_xml) \<longrightarrow>
                fst (main os (Some r) src outp ex exf) = Some 1)))
   \<and> (isdir r \<longrightarrow>
        build_structure_xml (recursion_limit os) (case efa of None \<Rightarrow> [] | Some l \<Rightarrow> l)
          (case xfa of None \<Rightarrow> [] | Some l \<Rightarrow> l) [] r = Inl x \<longrightarrow>
        describe_repo_contents_xml os (Some r) repo_folder output_path efa xfa = (Inl x, None))
   \<and> (isdir r \<longrightarrow> build_structure_xml (recursion_limit os) ex exf [] r = Inl x \<longrightarrow>
        main os (Some r) src outp ex exf
          = ((case x of Raised e \<Rightarrow> Some 1 | Blocked \<Rightarrow> None), None))
   \<and> ((q, d) \<in> set (visited ef xf p r) \<longrightarrow>
        (\<exists>e sub. d = Directory (Some e) sub \<and> \<not> is_PermissionError e)
        \<or> (\<exists>err sub. d = Directory err sub \<and> limit \<le> length q)
        \<or> (\<not> isdir d \<and> (\<exists>y. read_file_content d = Inl y)) \<longrightarrow>
        (\<exists>y. build_structure_xml limit ef xf p r = Inl y))"
proof (intro conjI impI)
  assume n: "repo = None \<or> (\<exists>r'. repo = Some r' \<and> \<not> isdir r')"
  from describe_not_a_directory [OF n]
  show "describe_repo_contents_xml os repo repo_folder output_path efa xfa
        = (Inl (Raised (not_a_valid_directory repo_folder)), None)" .
  from main_not_a_directory [OF n] show "main os repo src outp ex exf = (Some 1, None)" .
next
  assume d: "isdir r" and rec: "recoverable (recursion_limit os) r"
  from rec have "recoverable (recursion_limit os - length ([] :: string list)) r" by simp
  from build_total [OF this d] obtain kids where
    k: "build_structure_xml (recursion_limit os) (case efa of None \<Rightarrow> [] | Some l \<Rightarrow> l)
             (case xfa of None \<Rightarrow> [] | Some l \<Rightarrow> l) [] r = Inr kids" by blast
  have w: "\<forall>pretty_xml.
      output_written os output_path
        (root_element os repo_folder (case efa of None \<Rightarrow> [] | Some l \<Rightarrow> l)
           (case xfa of None \<Rightarrow> [] | Some l \<Rightarrow> l) kids) pretty_xml \<longrightarrow>
      describe_repo_contents_xml os (Some r) repo_folder output_path efa xfa
        = (Inr output_path, Some (strip_blank_lines pretty_xml))"
    using describe_succeeds [OF d k] by blast
  have f: "(\<forall>pretty_xml.
      \<not> output_written os output_path
          (root_element os repo_folder (case efa of None \<Rightarrow> [] | Some l \<Rightarrow> l)
             (case xfa of None \<Rightarrow> [] | Some l \<Rightarrow> l) kids) pretty_xml) \<longrightarrow>
      (\<exists>e. fst (describe_repo_contents_xml os (Some r) repo_folder output_path efa xfa)
         = Inl (Raised e))"
  proof
    assume "\<forall>pretty_xml.
      \<not> output_written os output_path
          (root_element os repo_folder (case efa of None \<Rightarrow> [] | Some l \<Rightarrow> l)
             (case xfa of None \<Rightarrow> [] | Some l \<Rightarrow> l) kids) pretty_xml"
    then have "\<not> (\<exists>pretty_xml.
      output_written os output_path
          (root_element os repo_folder (case efa of None \<Rightarrow> [] | Some l \<Rightarrow> l)
             (case xfa of None \<Rightarrow> [] | Some l \<Rightarrow> l) kids) pretty_xml)" by blast
    from describe_output_fails [OF d k this] obtain e where
      "describe_repo_contents_xml os (Some r) repo_folder output_path efa xfa = (Inl (Raised e), None)"
      by blast
    then show "\<exists>e. fst (describe_repo_contents_xml os (Some r) repo_folder output_path efa xfa)
         = Inl (Raised e)" by simp
  qed
  from k w f show "\<exists>kids.
           build_structure_xml (recursion_limit os) (case efa of None \<Rightarrow> [] | Some l \<Rightarrow> l)
             (case xfa of None \<Rightarrow> [] | Some l \<Rightarrow> l) [] r = Inr kids
           \<and> (\<forall>pretty_xml.
                output_written os output_path
                  (root_element os repo_folder (case efa of None \<Rightarrow> [] | Some l \<Rightarrow> l)
                     (case xfa of None \<Rightarrow> [] | Some l \<Rightarrow> l) kids) pretty_xml \<longrightarrow>
                describe_repo_contents_xml os (Some r) repo_folder output_path efa xfa
                  = (Inr output_path, Some (strip_blank_lines pretty_xml)))
           \<and> ((\<forall>pretty_xml.
                 \<not> output_written os output_path
                     (root_element os repo_folder (case efa of None \<Rightarrow> [] | Some l \<Rightarrow> l)
                        (case xfa of None \<Rightarrow> [] | Some l \<Rightarrow> l) kids) pretty_xml) \<longrightarrow>
                (\<exists>e. fst (describe_repo_contents_xml os (Some r) repo_folder output_path efa xfa)
                   = Inl (Raised e)))"
    by blast
next
  assume d: "isdir r" and rec: "recoverable (recursion_limit os) r"
  from rec have "recoverable (recursion_limit os - length ([] :: string list)) r" by simp
  from build_total [OF this d] obtain kids where
    k: "build_structure_xml (recursion_limit os) (case Some ex of None \<Rightarrow> [] | Some l \<Rightarrow> l)
             (case Some exf of None \<Rightarrow> [] | Some l \<Rightarrow> l) [] r = Inr kids" by blast
  have w: "\<forall>pretty_xml.
      output_written os (abspath os outp) (root_element os (abspath os src) ex exf kids) pretty_xml \<longrightarrow>
      main os (Some r) src outp ex exf = (Some 0, Some (strip_blank_lines pretty_xml))"
  proof (intro allI impI)
    fix pretty_xml
    assume "output_written os (abspath os outp) (root_element os (abspath os src) ex exf kids) pretty_xml"
    then have "output_written os (abspath os outp)
        (root_element os (abspath os src) (case Some ex of None \<Rightarrow> [] | Some l \<Rightarrow> l)
           (case Some exf of None \<Rightarrow> [] | Some l \<Rightarrow> l) kids) pretty_xml" by simp
    from describe_succeeds [OF d k this]
    show "main os (Some r) src outp ex exf = (Some 0, Some (strip_blank_lines pretty_xml))"
      unfolding main_status [OF d] by simp
  qed
  have f: "(\<forall>pretty_xml.
      \<not> output_written os (abspath os outp) (root_element os (abspath os src) ex exf kids) pretty_xml) \<longrightarrow>
      fst (main os (Some r) src outp ex exf) = Some 1"
  proof
    assume "\<forall>pretty_xml.
      \<not> output_written os (abspath os outp) (root_element os (abspath os src) ex exf kids) pretty_xml"
    then have "\<not> (\<exists>pretty_xml. output_written os (abspath os outp)
        (root_element os (abspath os src) (case Some ex of None \<Rightarrow> [] | Some l \<Rightarrow> l)
           (case Some exf of None \<Rightarrow> [] | Some l \<Rightarrow> l) kids) pretty_xml)" by simp
    from describe_output_fails [OF d k this] obtain e where
      "describe_repo_contents_xml os (Some r) (abspath os src) (abspath os outp) (Some ex) (Some exf)
         = (Inl (Raised e), None)" by blast
    then show "fst (main os (Some r) src outp ex exf) = Some 1"
      unfolding main_status [OF d] by simp
  qed
  from k have k': "build_structure_xml (recursion_limit os) ex exf [] r = Inr kids" by simp
  from k' w f show "\<exists>kids.
           build_structure_xml (recursion_limit os) ex exf [] r = Inr kids
           \<and> (\<forall>pretty_xml.
                output_written os (abspath os outp)
                  (root_element os (abspath os src) ex exf kids) pretty_xml \<longrightarrow>
                main os (Some r) src outp ex exf = (Some 0, Some (strip_blank_lines pretty_xml)))
           \<and> ((\<forall>pretty_xml.
                 \<not> output_written os (abspath os outp)
                     (root_element os (abspath os src) ex exf kids) pretty_xml) \<longrightarrow>
                fst (main os (Some r) src outp ex exf) = Some 1)"
    by blast
next
  assume d: "isdir r"
    and b: "build_structure_xml (recursion_limit os) (case efa of None \<Rightarrow> [] | Some l \<Rightarrow> l)
          (case xfa of None \<Rightarrow> [] | Some l \<Rightarrow> l) [] r = Inl x"
  from describe_build_fails [OF d b]
  show "describe_repo_contents_xml os (Some r) repo_folder output_path efa xfa = (Inl x, None)" .
next
  assume d: "isdir r" and b: "build_structure_xml (recursion_limit os) ex exf [] r = Inl x"
  then have "build_structure_xml (recursion_limit os) (case Some ex of None \<Rightarrow> [] | Some l \<Rightarrow> l)
          (case Some exf of None \<Rightarrow> [] | Some l \<Rightarrow> l) [] r = Inl x" by simp
  from describe_build_fails [OF d this]
  show "main os (Some r) src outp ex exf
          = ((case x of Raised e \<Rightarrow> Some 1 | Blocked \<Rightarrow> None), None)"
    unfolding main_status [OF d] by (simp split: failure.splits)
next
  assume v: "(q, d) \<in> set (visited ef xf p r)"
    and c: "(\<exists>e sub. d = Directory (Some e) sub \<and> \<not> is_PermissionError e)
        \<or> (\<exists>err sub. d = Directory err sub \<and> limit \<le> length q)
        \<or> (\<not> isdir d \<and> (\<exists>y. read_file_content d = Inl y))"
  from c have "\<exists>z. (if isdir d then build_structure_xml limit ef xf q d = Inl z
                     else read_file_content d = Inl z)"
    by auto
  then obtain z where "if isdir d then build_structure_xml limit ef xf q d = Inl z
                     else read_file_content d = Inl z" by blast
  from visited_failure_aborts [OF v this]
  show "\<exists>y. build_structure_xml limit ef xf p r = Inl y" .
qed

lemma build_scenario_sub_too_deep:
  "build_structure_xml 1 [] [] [] scenario_sub
     = Inl (Raised (RecursionError ''maximum recursion depth exceeded''))"
proof -
  have s: "sort_key fst [(''sub'', Directory None [(''b.txt'', b_txt)]), (''a.py'', a_py)]
      = [(''a.py'', a_py), (''sub'', Directory None [(''b.txt'', b_txt)])]"
    by code_simp
  show ?thesis
    unfolding scenario_sub_def
    by (simp add: s not_excluded_by_empty_lists not_hidden_examples a_py_content a_py_not_dir)
qed

lemma build_blocked_read:
  "build_structure_xml 1000 [] [] [] (Directory None [(''pipe'', File False (Inr 0) (Inl Blocked))])
     = Inl Blocked"
proof -
  have nh: "\<not> startswith ''pipe'' ''.''" by code_simp
  show ?thesis by (simp add: nh not_excluded_by_empty_lists)
qed

theorem run_outcome_witness:
  "describe_repo_contents_xml simple_platform None ''/nowhere'' ''/out/repo.xml'' None None
      = (Inl (Raised (not_a_valid_directory ''/nowhere'')), None)
   \<and> main simple_platform None ''/nowhere'' ''/out/repo.xml'' [] [] = (Some 1, None)
   \<and> \<not> isdir a_py
   \<and> describe_repo_contents_xml simple_platform (Some a_py) ''/repo/a.py'' ''/out/repo.xml'' None None
      = (Inl (Raised (not_a_valid_directory ''/repo/a.py'')), None)
   \<and> main simple_platform (Some a_py) ''/repo/a.py'' ''/out/repo.xml'' [] [] = (Some 1, None)
   \<and> isdir scenario_locked \<and> recoverable 1000 scenario_locked
   \<and> describe_repo_contents_xml simple_platform (Some scenario_locked) ''/repo'' ''/out/repo.xml''
        None None
      = (Inr ''/out/repo.xml'',
         Some (strip_blank_lines (serialize (root_element simple_platform ''/repo'' [] []
           [Element ''file'' [(''name'', ''a.py''), (''path'', ''a.py''), (''language'', ''python'')]
              None [Element ''content'' [] (Some [120, 61, 49]) []],
            Element ''directory'' [(''name'', ''locked''), (''path'', ''locked'')] None []]))))
   \<and> isdir scenario_sub \<and> recoverable 1000 scenario_sub
   \<and> main simple_platform (Some scenario_sub) ''/repo'' ''/out/repo.xml'' [''sub''] []
      = (Some 0,
         Some (strip_blank_lines (serialize (root_element simple_platform ''/repo'' [''sub''] []
           [Element ''file'' [(''name'', ''a.py''), (''path'', ''a.py''), (''language'', ''python'')]
              None [Element ''content'' [] (Some [120, 61, 49]) []]]))))
   \<and> fst (main (simple_platform\<lparr>write_file := (\<lambda>p s. Some (OSError ''[Errno 28] No space left on device''))\<rparr>)
            (Some scenario_sub) ''/repo'' ''/out/repo.xml'' [''sub''] []) = Some 1
   \<and> isdir scenario_io_error
   \<and> describe_repo_contents_xml simple_platform (Some scenario_io_error) ''/repo'' ''/out/repo.xml''
        None None
      = (Inl (Raised (OSError ''[Errno 5] Input/output error'')), None)
   \<and> ([''d''], Directory (Some (OSError ''[Errno 5] Input/output error'')) [])
        \<in> set (visited [] [] [] scenario_io_error)
   \<and> \<not> is_PermissionError (OSError ''[Errno 5] Input/output error'')
   \<and> (\<exists>y. build_structure_xml 1000 [] [] [] scenario_io_error = Inl y)
   \<and> ([''sub''], Directory None [(''b.txt'', b_txt)]) \<in> set (visited [] [] [] scenario_sub)
   \<and> (1 :: nat) \<le> length [''sub'']
   \<and> (\<exists>y. build_structure_xml 1 [] [] [] scenario_sub = Inl y)
   \<and> main (simple_platform\<lparr>recursion_limit := 1\<rparr>) (Some scenario_sub) ''/repo'' ''/out/repo.xml'' [] []
      = (Some 1, None)
   \<and> main simple_platform (Some (Directory None [(''pipe'', File False (Inr 0) (Inl Blocked))]))
        ''/repo'' ''/out/repo.xml'' [] []
      = (None, None)"
proof -
  let ?KL = "[Element ''file'' [(''name'', ''a.py''), (''path'', ''a.py''), (''language'', ''python'')]
              None [Element ''content'' [] (Some [120, 61, 49]) []],
            Element ''directory'' [(''name'', ''locked''), (''path'', ''locked'')] None []]"
  let ?KS = "[Element ''file'' [(''name'', ''a.py''), (''path'', ''a.py''), (''language'', ''python'')]
              None [Element ''content'' [] (Some [120, 61, 49]) []]]"
  let ?full = "simple_platform\<lparr>write_file := (\<lambda>p s. Some (OSError ''[Errno 28] No space left on device''))\<rparr>"
  let ?shallow = "simple_platform\<lparr>recursion_limit := 1\<rparr>"
  let ?pipe = "Directory None [(''pipe'', File False (Inr 0) (Inl Blocked))]"
  let ?io = "OSError ''[Errno 5] Input/output error''"
  note t0 = run_outcome [where repo = None and os = simple_platform and repo_folder = "''/nowhere''"
      and output_path = "''/out/repo.xml''" and efa = None and xfa = None
      and src = "''/nowhere''" and outp = "''/out/repo.xml''" and ex = "[]" and exf = "[]",
      THEN conjunct1, rule_format]
  note t1 = run_outcome [where repo = "Some a_py" and os = simple_platform and repo_folder = "''/repo/a.py''"
      and output_path = "''/out/repo.xml''" and efa = None and xfa = None
      and src = "''/repo/a.py''" and outp = "''/out/repo.xml''" and ex = "[]" and exf = "[]",
      THEN conjunct1, rule_format]
  note t2 = run_outcome [where r = scenario_locked and os = simple_platform and repo_folder = "''/repo''"
      and output_path = "''/out/repo.xml''" and efa = None and xfa = None,
      THEN conjunct2, THEN conjunct1, rule_format]
  note t3 = run_outcome [where r = scenario_sub and os = simple_platform
      and src = "''/repo''" and outp = "''/out/repo.xml''" and ex = "[''sub'']" and exf = "[]",
      THEN conjunct2, THEN conjunct2, THEN conjunct1, rule_format]
  note t3f = run_outcome [where r = scenario_sub and os = ?full
      and src = "''/repo''" and outp = "''/out/repo.xml''" and ex = "[''sub'']" and exf = "[]",
      THEN conjunct2, THEN conjunct2, THEN conjunct1, rule_format]
  note t4 = run_outcome [where r = scenario_io_error and os = simple_platform and repo_folder = "''/repo''"
      and output_path = "''/out/repo.xml''" and efa = None and xfa = None and x = "Raised ?io",
      THEN conjunct2, THEN conjunct2, THEN conjunct2, THEN conjunct1, rule_format]
  note t5 = run_outcome [where r = scenario_sub and os = ?shallow
      and src = "''/repo''" and outp = "''/out/repo.xml''" and ex = "[]" and exf = "[]"
      and x = "Raised (RecursionError ''maximum recursion depth exceeded'')",
      THEN conjunct2, THEN conjunct2, THEN conjunct2, THEN conjunct2, THEN conjunct1, rule_format]
  note t5p = run_outcome [where r = ?pipe and os = simple_platform
      and src = "''/repo''" and outp = "''/out/repo.xml''" and ex = "[]" and exf = "[]"
      and x = Blocked,
      THEN conjunct2, THEN conjunct2, THEN conjunct2, THEN conjunct2, THEN conjunct1, rule_format]
  note t6 = run_outcome [where r = scenario_io_error and q = "[''d'']" and d = "Directory (Some ?io) []"
      and ef = "[]" and xf = "[]" and p = "[]" and limit = 1000,
      THEN conjunct2, THEN conjunct2, THEN conjunct2, THEN conjunct2, THEN conjunct2, rule_format]
  note t6d = run_outcome [where r = scenario_sub and q = "[''sub'']"
      and d = "Directory None [(''b.txt'', b_txt)]"
      and ef = "[]" and xf = "[]" and p = "[]" and limit = 1,
      THEN conjunct2, THEN conjunct2, THEN conjunct2, THEN conjunct2, THEN conjunct2, rule_format]
  have nd: "\<not> isdir a_py" by (rule a_py_not_dir)
  have w1: "describe_repo_contents_xml simple_platform None ''/nowhere'' ''/out/repo.xml'' None None
      = (Inl (Raised (not_a_valid_directory ''/nowhere'')), None)"
    "main simple_platform None ''/nowhere'' ''/out/repo.xml'' [] [] = (Some 1, None)"
    using t0 by simp_all
  have w2: "describe_repo_contents_xml simple_platform (Some a_py) ''/repo/a.py'' ''/out/repo.xml'' None None
      = (Inl (Raised (not_a_valid_directory ''/repo/a.py'')), None)"
    "main simple_platform (Some a_py) ''/repo/a.py'' ''/out/repo.xml'' [] [] = (Some 1, None)"
    using t1 nd by simp_all
  have dl: "isdir scenario_locked" unfolding scenario_locked_def by simp
  have rl: "recoverable 1000 scenario_locked"
    unfolding scenario_locked_def locked_def a_py_def b_txt_def by simp
  have rl': "recoverable (recursion_limit simple_platform) scenario_locked"
    using rl unfolding recursion_limit_simple_platform .
  from t2 [OF dl rl'] obtain kids where
    k: "build_structure_xml (recursion_limit simple_platform) [] [] [] scenario_locked = Inr kids"
    and w: "\<And>pretty_xml.
      output_written simple_platform ''/out/repo.xml''
        (root_element simple_platform ''/repo'' [] [] kids) pretty_xml \<Longrightarrow>
      describe_repo_contents_xml simple_platform (Some scenario_locked) ''/repo'' ''/out/repo.xml''
          None None
        = (Inr ''/out/repo.xml'', Some (strip_blank_lines pretty_xml))"
    by auto
  from k build_scenario_locked have kk: "kids = ?KL"
    unfolding recursion_limit_simple_platform by simp
  from w [OF output_written_simple_platform]
  have w3: "describe_repo_contents_xml simple_platform (Some scenario_locked) ''/repo'' ''/out/repo.xml''
        None None
      = (Inr ''/out/repo.xml'',
         Some (strip_blank_lines (serialize (root_element simple_platform ''/repo'' [] [] ?KL))))"
    unfolding kk .
  have ds: "isdir scenario_sub" unfolding scenario_sub_def by simp
  have rs: "recoverable 1000 scenario_sub"
    unfolding scenario_sub_def a_py_def b_txt_def by simp
  have rs': "recoverable (recursion_limit simple_platform) scenario_sub"
    using rs unfolding recursion_limit_simple_platform .
  from t3 [OF ds rs'] obtain kids' where
    k': "build_structure_xml (recursion_limit simple_platform) [''sub''] [] [] scenario_sub = Inr kids'"
    and w': "\<And>pretty_xml.
      output_written simple_platform (abspath simple_platform ''/out/repo.xml'')
        (root_element simple_platform (abspath simple_platform ''/repo'') [''sub''] [] kids') pretty_xml \<Longrightarrow>
      main simple_platform (Some scenario_sub) ''/repo'' ''/out/repo.xml'' [''sub''] []
        = (Some 0, Some (strip_blank_lines pretty_xml))"
    by auto
  from k' build_scenario_sub_explicit have kk': "kids' = ?KS"
    unfolding recursion_limit_simple_platform by simp
  from w' [OF output_written_simple_platform]
  have w4: "main simple_platform (Some scenario_sub) ''/repo'' ''/out/repo.xml'' [''sub''] []
      = (Some 0,
         Some (strip_blank_lines (serialize (root_element simple_platform ''/repo'' [''sub''] [] ?KS))))"
    unfolding kk' abspath_simple_platform .
  have rf: "recoverable (recursion_limit ?full) scenario_sub"
    using rs by (simp add: simple_platform_def)
  have nw: "\<not> output_written ?full out root pretty_xml" for out root pretty_xml
    unfolding output_written_def by simp
  from t3f [OF ds rf] nw
  have w5: "fst (main ?full (Some scenario_sub) ''/repo'' ''/out/repo.xml'' [''sub''] []) = Some 1"
    by blast
  have di: "isdir scenario_io_error" unfolding scenario_io_error_def by simp
  have bi: "build_structure_xml (recursion_limit simple_platform)
      (case None of None \<Rightarrow> [] | Some l \<Rightarrow> l) (case None of None \<Rightarrow> [] | Some l \<Rightarrow> l) []
      scenario_io_error = Inl (Raised ?io)"
    using build_scenario_io_error unfolding recursion_limit_simple_platform by simp
  from t4 [OF di bi]
  have w6: "describe_repo_contents_xml simple_platform (Some scenario_io_error) ''/repo'' ''/out/repo.xml''
        None None = (Inl (Raised ?io), None)" .
  have vi: "([''d''], Directory (Some ?io) []) \<in> set (visited [] [] [] scenario_io_error)"
    unfolding scenario_io_error_def by (simp add: not_hidden_examples not_excluded_by_empty_lists)
  have np: "\<not> is_PermissionError ?io" by simp
  have ci: "(\<exists>e sub. Directory (Some ?io) [] = Directory (Some e) sub \<and> \<not> is_PermissionError e)
        \<or> (\<exists>err sub. Directory (Some ?io) [] = Directory err sub \<and> (1000 :: nat) \<le> length [''d''])
        \<or> (\<not> isdir (Directory (Some ?io) []) \<and> (\<exists>y. read_file_content (Directory (Some ?io) []) = Inl y))"
    by simp
  from t6 [OF vi ci]
  have w7: "\<exists>y. build_structure_xml 1000 [] [] [] scenario_io_error = Inl y" .
  have vs: "([''sub''], Directory None [(''b.txt'', b_txt)]) \<in> set (visited [] [] [] scenario_sub)"
    unfolding scenario_sub_def by (simp add: not_hidden_examples not_excluded_by_empty_lists)
  have le: "(1 :: nat) \<le> length [''sub'']" by simp
  have cs: "(\<exists>e sub. Directory None [(''b.txt'', b_txt)] = Directory (Some e) sub \<and> \<not> is_PermissionError e)
        \<or> (\<exists>err sub. Directory None [(''b.txt'', b_txt)] = Directory err sub \<and> (1 :: nat) \<le> length [''sub''])
        \<or> (\<not> isdir (Directory None [(''b.txt'', b_txt)])
            \<and> (\<exists>y. read_file_content (Directory None [(''b.txt'', b_txt)]) = Inl y))"
    by simp
  from t6d [OF vs cs]
  have w8: "\<exists>y. build_structure_xml 1 [] [] [] scenario_sub = Inl y" .
  have bs: "build_structure_xml (recursion_limit ?shallow) [] [] [] scenario_sub
      = Inl (Raised (RecursionError ''maximum recursion depth exceeded''))"
    using build_scenario_sub_too_deep by simp
  from t5 [OF ds bs]
  have w9: "main ?shallow (Some scenario_sub) ''/repo'' ''/out/repo.xml'' [] [] = (Some 1, None)"
    by simp
  have dp: "isdir ?pipe" by simp
  have bp: "build_structure_xml (recursion_limit simple_platform) [] [] [] ?pipe = Inl Blocked"
    using build_blocked_read unfolding recursion_limit_simple_platform .
  from t5p [OF dp bp]
  have w10: "main simple_platform (Some ?pipe) ''/repo'' ''/out/repo.xml'' [] [] = (None, None)"
    by simp
  from w1 nd w2 dl rl w3 ds rs w4 w5 di w6 vi np w7 vs le w8 w9 w10 show ?thesis by blast
qed

text \<open>
  The claim as it is written fails when a listing raises an \<^verbatim>\<open>OSError\<close> that is not a
  \<^verbatim>\<open>PermissionError\<close>: the root is a directory and the output stage succeeds for every
  tree, yet the run raises the error of the listing and writes nothing, and \<^verbatim>\<open>main\<close>
  returns 1.
\<close>

theorem listing_error_aborts_run:
  "isdir scenario_io_error
   \<and> scenario_io_error =
       Directory None
         [(''d'', Directory (Some (OSError ''[Errno 5] Input/output error'')) []), (''a.py'', a_py)]
   \<and> (\<forall>root. output_written simple_platform ''/out/repo.xml'' root (serialize root))
   \<and> describe_repo_contents_xml simple_platform (Some scenario_io_error) ''/repo'' ''/out/repo.xml'' None None
       = (Inl (Raised (OSError ''[Errno 5] Input/output error'')), None)
   \<and> main simple_platform (Some scenario_io_error) ''/repo'' ''/out/repo.xml'' [] [] = (Some 1, None)"
proof -
  have d: "isdir scenario_io_error" unfolding scenario_io_error_def by simp
  have o: "\<forall>root. output_written simple_platform ''/out/repo.xml'' root (serialize root)"
    using output_written_simple_platform by blast
  from describe_build_fails [of scenario_io_error simple_platform None None, OF d] build_scenario_io_error
  have f: "describe_repo_contents_xml simple_platform (Some scenario_io_error) ''/repo'' ''/out/repo.xml'' None None
       = (Inl (Raised (OSError ''[Errno 5] Input/output error'')), None)"
    by (simp add: recursion_limit_simple_platform)
  from describe_build_fails [of scenario_io_error simple_platform "Some []" "Some []", OF d]
    build_scenario_io_error
  have g: "describe_repo_contents_xml simple_platform (Some scenario_io_error) ''/repo'' ''/out/repo.xml''
        (Some []) (Some [])
       = (Inl (Raised (OSError ''[Errno 5] Input/output error'')), None)"
    by (simp add: recursion_limit_simple_platform)
  have m: "main simple_platform (Some scenario_io_error) ''/repo'' ''/out/repo.xml'' [] [] = (Some 1, None)"
    unfolding main_status [OF d] abspath_simple_platform g by simp
  from d scenario_io_error_def o f m show ?thesis by blast
qed

section \<open>Determinism\<close>

lemma should_exclude_path_isfile:
  "isfile e = isfile e' \<Longrightarrow> should_exclude_path ef xf path e = should_exclude_path ef xf path e'"
  unfolding should_exclude_path_iff by simp

lemma for_items_alike:
  "list_all2 (\<lambda>x y. fst x = fst y \<and> alike limit ef xf (snd x) (snd y)) xs ys \<Longrightarrow>
   for_items limit ef xf p xs = for_items limit ef xf p ys"
proof (induction xs ys rule: list_all2_induct)
  case Nil
  then show ?case by simp
next
  case (Cons x xs y ys)
  obtain item e where x: "x = (item, e)" by (cases x)
  obtain item' e' where y: "y = (item', e')" by (cases y)
  from Cons.hyps(1) x y have i: "item' = item" and a: "alike limit ef xf e e'" by simp_all
  from a have ex: "should_exclude_path ef xf (p @ [item]) e = should_exclude_path ef xf (p @ [item]) e'"
    unfolding alike_def using should_exclude_path_isfile by blast
  from a have d: "isdir e = isdir e'" and r: "read_file_content e = read_file_content e'"
    and b: "build_structure_xml limit ef xf (p @ [item]) e = build_structure_xml limit ef xf (p @ [item]) e'"
    unfolding alike_def by simp_all
  show ?case unfolding x y i
    by (simp only: for_items.simps ex d r b Cons.IH)
qed

lemma sorted_names_unique:
  assumes "mset (map fst xs) = mset (map fst ys)"
  shows "map fst (sort_key fst xs) = map fst (sort_key fst ys)"
proof -
  have "sort (map fst xs) = map fst (sort_key fst ys)"
  proof (rule properties_for_sort)
    show "mset (map fst (sort_key fst ys)) = mset (map fst xs)" using assms by simp
    show "sorted (map fst (sort_key fst ys))" by simp
  qed
  moreover have "sort (map fst xs) = map fst (sort_key fst xs)"
  proof (rule properties_for_sort)
    show "mset (map fst (sort_key fst xs)) = mset (map fst xs)" by simp
    show "sorted (map fst (sort_key fst xs))" by simp
  qed
  ultimately show ?thesis by simp
qed

lemma same_tree_alike:
  "same_tree e e' \<Longrightarrow> alike limit ef xf e e'"
proof (induction rule: same_tree.induct)
  case (same_file regular sz content)
  then show ?case unfolding alike_def by simp
next
  case (same_directory entries entries' err)
  let ?xs = "sort_key fst entries" and ?ys = "sort_key fst entries'"
  from sorted_names_unique [OF same_directory.hyps(1)]
  have names: "map fst ?xs = map fst ?ys" .
  then have len: "length ?xs = length ?ys" by (rule map_eq_imp_length_eq)
  have "list_all2 (\<lambda>x y. fst x = fst y \<and> alike limit ef xf (snd x) (snd y)) ?xs ?ys"
  proof (rule list_all2_all_nthI [OF len])
    fix i assume i: "i < length ?xs"
    with len have i': "i < length ?ys" by simp
    from names i i' have f: "fst (?xs ! i) = fst (?ys ! i)"
      by (metis nth_map)
    from i have "?xs ! i \<in> set ?xs" by (rule nth_mem)
    then have mx: "(fst (?xs ! i), snd (?xs ! i)) \<in> set entries" by simp
    from i' have "?ys ! i \<in> set ?ys" by (rule nth_mem)
    with f have my: "(fst (?xs ! i), snd (?ys ! i)) \<in> set entries'" by simp
    from same_directory.IH [OF mx my] f
    show "fst (?xs ! i) = fst (?ys ! i) \<and> alike limit ef xf (snd (?xs ! i)) (snd (?ys ! i))" by simp
  qed
  from for_items_alike [OF this]
  have "for_items limit ef xf q ?xs = for_items limit ef xf q ?ys" for q .
  then show ?case unfolding alike_def by (simp split: option.splits)
qed

lemma for_items_sorted:
  "sorted (map fst items) \<Longrightarrow> for_items limit ef xf p items = Inr els \<Longrightarrow>
   sorted_wrt (\<lambda>x y. \<exists>n n'. get x ''name'' = Some n \<and> get y ''name'' = Some n' \<and> n \<le> n') els"
proof (induction items arbitrary: els)
  case Nil
  then show ?case by simp
next
  case (Cons a items)
  obtain item e where a: "a = (item, e)" by (cases a)
  from Cons.prems(1) have srt: "sorted (map fst items)"
    and le: "\<forall>x \<in> set items. item \<le> fst x" unfolding a by auto
  have later: "\<exists>n'. get el ''name'' = Some n' \<and> item \<le> n'"
    if r: "for_items limit ef xf p items = Inr rest" and el: "el \<in> set rest" for rest el
  proof -
    from for_items_elements [OF r, of el] el obtain item' e' where
      m: "(item', e') \<in> set items" and ap: "appended_for limit ef xf p item' e' el" by blast
    from le m have "item \<le> item'" by force
    with appended_for_name [OF ap] show ?thesis by simp
  qed
  show ?case
  proof (cases "startswith item ''.'' \<or> should_exclude_path ef xf (p @ [item]) e")
    case True
    with Cons.prems(2) a have "for_items limit ef xf p items = Inr els"
      by (simp only: for_items_skip)
    from Cons.IH [OF srt this] show ?thesis .
  next
    case False
    then have nh: "\<not> startswith item ''.''"
      and ne: "\<not> should_exclude_path ef xf (p @ [item]) e" by simp_all
    show ?thesis
    proof (cases "isdir e")
      case True
      from Cons.prems(2) obtain kids rest where
        r: "for_items limit ef xf p items = Inr rest" and
        els: "els = directory_element item (relpath (p @ [item])) kids # rest"
        unfolding a for_items_directory [OF nh ne True] by (auto split: sum.splits)
      have "get (directory_element item (relpath (p @ [item])) kids) ''name'' = Some item"
        unfolding directory_element_def by simp
      with later [OF r] Cons.IH [OF srt r] show ?thesis unfolding els by auto
    next
      case nd: False
      from Cons.prems(2) obtain c rest where
        r: "for_items limit ef xf p items = Inr rest" and
        els: "els = file_element item (relpath (p @ [item])) c # rest"
        unfolding a for_items_file [OF nh ne nd] by (auto split: sum.splits)
      have "get (file_element item (relpath (p @ [item])) c) ''name'' = Some item"
        unfolding file_element_def by simp
      with later [OF r] Cons.IH [OF srt r] show ?thesis unfolding els by auto
    qed
  qed
qed

lemma build_children_sorted:
  assumes "build_structure_xml limit ef xf p (Directory err entries) = Inr els"
  shows "sorted_wrt (\<lambda>x y. \<exists>n n'. get x ''name'' = Some n \<and> get y ''name'' = Some n' \<and> n \<le> n') els"
proof (cases err)
  case None
  with assms have "for_items limit ef xf p (sort_key fst entries) = Inr els"
    by (simp split: if_splits)
  from for_items_sorted [OF _ this] show ?thesis by simp
next
  case (Some x)
  with assms have "els = []" by (simp split: if_splits)
  then show ?thesis by simp
qed

text \<open>
  C9. Two runs on the same directory tree, whatever the order in which the listings
  return the names of each directory, with the same exclusion lists, the same paths and
  the same platform, give the same result and write the same text: the listing of every
  directory is sorted by name before it is processed, and the nodes that a directory
  gets are in the order of their names.
\<close>

theorem deterministic_output:
  assumes "same_tree a b"
  shows "build_structure_xml limit ef xf p a = build_structure_xml limit ef xf p b
    \<and> describe_repo_contents_xml os (Some a) repo_folder output_path efa xfa
        = describe_repo_contents_xml os (Some b) repo_folder output_path efa xfa
    \<and> main os (Some a) src outp ex exf = main os (Some b) src outp ex exf
    \<and> (\<forall>els. build_structure_xml limit ef xf p a = Inr els \<longrightarrow>
         sorted_wrt (\<lambda>x y. \<exists>n n'. get x ''name'' = Some n \<and> get y ''name'' = Some n' \<and> n \<le> n') els)"
proof -
  from same_tree_alike [OF assms] have d: "isdir a = isdir b"
    and b: "build_structure_xml l ef' xf' q a = build_structure_xml l ef' xf' q b" for l ef' xf' q
    unfolding alike_def by simp_all
  have desc: "describe_repo_contents_xml os (Some a) rf out ea xa
        = describe_repo_contents_xml os (Some b) rf out ea xa" for rf out ea xa
    unfolding describe_repo_contents_xml_def Let_def by (simp only: d b option.case)
  have "main os (Some a) src outp ex exf = main os (Some b) src outp ex exf"
    unfolding main_def Let_def by (simp only: d desc option.case)
  moreover have "sorted_wrt (\<lambda>x y. \<exists>n n'. get x ''name'' = Some n \<and> get y ''name'' = Some n' \<and> n \<le> n') els"
    if "build_structure_xml limit ef xf p a = Inr els" for els
  proof (cases a)
    case (File x1 x2 x3)
    with that show ?thesis by (simp split: if_splits)
  next
    case (Directory err entries)
    with that build_children_sorted show ?thesis by blast
  qed
  ultimately show ?thesis using b desc by blast
qed


lemma same_tree_scenario_sub: "same_tree scenario_sub scenario_sub_reordered"
proof -
  have b: "same_tree b_txt b_txt" unfolding b_txt_def by (rule same_file)
  have a: "same_tree a_py a_py" unfolding a_py_def by (rule same_file)
  have s: "same_tree (Directory None [(''b.txt'', b_txt)]) (Directory None [(''b.txt'', b_txt)])"
    by (rule same_directory) (use b in auto)
  show ?thesis
    unfolding scenario_sub_def scenario_sub_reordered_def
    by (rule same_directory) (use a s in auto)
qed

theorem deterministic_output_witness:
  "same_tree scenario_sub scenario_sub_reordered
   \<and> scenario_sub \<noteq> scenario_sub_reordered
   \<and> build_structure_xml 1000 [''sub''] [] [] scenario_sub_reordered
       = Inr [file_element ''a.py'' ''a.py'' [120, 61, 49]]
   \<and> describe_repo_contents_xml simple_platform (Some scenario_sub) ''/repo'' ''/out/repo.xml'' None None
       = describe_repo_contents_xml simple_platform (Some scenario_sub_reordered) ''/repo'' ''/out/repo.xml'' None None
   \<and> main simple_platform (Some scenario_sub) ''/repo'' ''/out/repo.xml'' [''sub''] []
       = main simple_platform (Some scenario_sub_reordered) ''/repo'' ''/out/repo.xml'' [''sub''] []"
proof -
  note t = deterministic_output [OF same_tree_scenario_sub, of 1000 "[''sub'']" "[]" "[]" simple_platform
      "''/repo''" "''/out/repo.xml''" None None "''/repo''" "''/out/repo.xml''" "[''sub'']" "[]"]
  have n: "scenario_sub \<noteq> scenario_sub_reordered"
    unfolding scenario_sub_def scenario_sub_reordered_def by simp
  from t build_scenario_sub have
    "build_structure_xml 1000 [''sub''] [] [] scenario_sub_reordered
       = Inr [file_element ''a.py'' ''a.py'' [120, 61, 49]]" by simp
  with t n same_tree_scenario_sub show ?thesis by blast
qed

end
